theory Spec2Isabelle
  imports Complex_Main "HOL-Library.AList" "HOL-Library.Monad_Syntax"
begin

section \<open>Data model\<close>

text \<open>
  A record of the Go program is a \<^verbatim>\<open>map[string]interface{}\<close>. The dynamic type of a field
  value decides every type switch of the code, so a value carries its Go type. \<open>VProbs\<close> is
  the \<^verbatim>\<open>map[string]float64\<close> that the categorical predictor stores under
  \<^verbatim>\<open>"<target>_probs"\<close>; \<open>VOther\<close> stands for every other dynamic type (nil, slices, nested
  maps). \<^verbatim>\<open>float64\<close> is modelled by \<open>real\<close> (no rounding, no NaN, no infinities) and Go's 64-bit
  \<^verbatim>\<open>int\<close> by \<open>int\<close>.

  A Go map is an association list. Go leaves the iteration order of a map unspecified; the
  model iterates in list order, and the theorems below hold for every list, hence for every
  order. Assignment \<^verbatim>\<open>m[k] = v\<close> is \<open>AList.update\<close>, lookup is \<open>map_of\<close>. A nil map is \<open>None\<close>:
  it reads like the empty map and cannot be assigned to.

  A function returns \<open>None\<close> when the Go code does not return normally: a run-time panic
  (index out of range, assignment to an entry of a nil map, nil dereference) or a loop that
  never ends. An \<^verbatim>\<open>error\<close> result of the Go code is an ordinary value.
\<close>

datatype val =
    VFloat64 real
  | VFloat32 real
  | VInt int
  | VInt64 int
  | VInt32 int
  | VBool bool
  | VString string
  | VProbs "(string \<times> real) list"
  | VOther

type_synonym gomap = "(string \<times> val) list"

type_synonym catmap = "(string \<times> (string \<times> int) list) list"

datatype error =
    ErrUnsupportedModelType
  | ErrInvalidInput
  | ErrInvalidOutput
  | ErrModelNotTrained
  | ModelNotInitialized
  | ShapeMismatch nat nat
  | EmptyTrainingSet
  | WeightsNotInitialized
  | NoOutputData
  | TrainingError error
  | NumericTargetsError error
  | CategoricalTargetsError error
  | BooleanTargetsError error
  | DeserializationError

record Config =
  LearningRate :: real
  Epochs :: int
  BatchSize :: int
  Regularize :: real
  Tolerance :: real

record Model =
  Type :: string
  Parameters :: "gomap option"
  Features :: "gomap option"
  Targets :: "gomap option"
  Categories :: "catmap option"
  FeatureCategories :: "catmap option"

record Weights =
  Values :: "gomap option"

record Engine =
  model :: "Model option"
  weights :: "Weights option"
  config :: "Config option"

definition DefaultConfig :: Config where
  "DefaultConfig = \<lparr>LearningRate = 1 / 100, Epochs = 100, BatchSize = 32,
     Regularize = 1 / 10000, Tolerance = 1 / 10000\<rparr>"

text \<open>Reading a possibly nil map.\<close>

definition entries :: "('k \<times> 'v) list option \<Rightarrow> ('k \<times> 'v) list" where
  "entries m = (case m of None \<Rightarrow> [] | Some kvs \<Rightarrow> kvs)"

definition lookup :: "('k \<times> 'v) list option \<Rightarrow> 'k \<Rightarrow> 'v option" where
  "lookup m k = map_of (entries m) k"

section \<open>utils.go\<close>

fun ConvertToFloat64 :: "val \<Rightarrow> string \<Rightarrow> real \<times> bool" where
  "ConvertToFloat64 (VFloat64 v) oneHotKey = (v, True)"
| "ConvertToFloat64 (VFloat32 v) oneHotKey = (v, True)"
| "ConvertToFloat64 (VInt v) oneHotKey = (real_of_int v, True)"
| "ConvertToFloat64 (VInt64 v) oneHotKey = (real_of_int v, True)"
| "ConvertToFloat64 (VInt32 v) oneHotKey = (real_of_int v, True)"
| "ConvertToFloat64 (VBool v) oneHotKey = (if v then (1, True) else (0, True))"
| "ConvertToFloat64 (VString v) oneHotKey = (if v = oneHotKey then (1, True) else (0, True))"
| "ConvertToFloat64 _ oneHotKey = (0, False)"

fun IsSupportedNumericType :: "val \<Rightarrow> bool" where
  "IsSupportedNumericType (VInt _) = True"
| "IsSupportedNumericType (VInt32 _) = True"
| "IsSupportedNumericType (VInt64 _) = True"
| "IsSupportedNumericType (VFloat32 _) = True"
| "IsSupportedNumericType (VFloat64 _) = True"
| "IsSupportedNumericType _ = False"


fun ConvertToBool :: "val \<Rightarrow> bool \<times> bool" where
  "ConvertToBool (VBool v) = (v, True)"
| "ConvertToBool (VInt v) = (v \<noteq> 0, True)"
| "ConvertToBool (VFloat64 v) = (v \<noteq> 0, True)"
| "ConvertToBool (VString v) = (v = ''true'' \<or> v = ''yes'' \<or> v = ''1'', True)"
| "ConvertToBool _ = (False, False)"

section \<open>model.go: constructors and automatic selection\<close>

definition NewLinearModel :: Model where
  "NewLinearModel = \<lparr>Type = ''linear'', Parameters = Some [(''bias'', VBool True)],
     Features = None, Targets = None, Categories = None, FeatureCategories = None\<rparr>"

definition NewLogisticModel :: Model where
  "NewLogisticModel = \<lparr>Type = ''logistic'', Parameters = Some [(''bias'', VBool True)],
     Features = None, Targets = None, Categories = None, FeatureCategories = None\<rparr>"

definition NewCategoricalModel :: Model where
  "NewCategoricalModel = \<lparr>Type = ''categorical'', Parameters = Some [(''bias'', VBool True)],
     Features = None, Targets = None, Categories = Some [], FeatureCategories = None\<rparr>"

definition NewMixedModel :: Model where
  "NewMixedModel = \<lparr>Type = ''mixed'', Parameters = Some [(''bias'', VBool True)],
     Features = Some [], Targets = Some [], Categories = Some [], FeatureCategories = Some []\<rparr>"

text \<open>
  The first loop of \<^verbatim>\<open>NewAutoModel\<close>: one step per field, on the flags
  \<open>(hasString, hasNumeric, hasBoolean)\<close>.
\<close>

fun autoFlags :: "val \<Rightarrow> bool \<times> bool \<times> bool \<Rightarrow> bool \<times> bool \<times> bool" where
  "autoFlags (VString v) (hasString, hasNumeric, hasBoolean) = (True, hasNumeric, hasBoolean)"
| "autoFlags (VBool v) (hasString, hasNumeric, hasBoolean) = (hasString, hasNumeric, True)"
| "autoFlags (VInt v) (hasString, hasNumeric, hasBoolean) = (hasString, True, hasBoolean)"
| "autoFlags (VInt32 v) (hasString, hasNumeric, hasBoolean) = (hasString, True, hasBoolean)"
| "autoFlags (VInt64 v) (hasString, hasNumeric, hasBoolean) = (hasString, True, hasBoolean)"
| "autoFlags (VFloat32 v) (hasString, hasNumeric, hasBoolean) = (hasString, True, hasBoolean)"
| "autoFlags (VFloat64 v) (hasString, hasNumeric, hasBoolean) = (hasString, True, hasBoolean)"
| "autoFlags v (hasString, hasNumeric, hasBoolean) =
     (if IsSupportedNumericType v then (hasString, True, hasBoolean)
      else (hasString, hasNumeric, hasBoolean))"

text \<open>The second loop: a field of Go type int or float64 other than 0 and 1 clears the flag.\<close>

fun autoBinary :: "val \<Rightarrow> bool \<Rightarrow> bool" where
  "autoBinary (VInt v) isLogistic = (if v \<noteq> 0 \<and> v \<noteq> 1 then False else isLogistic)"
| "autoBinary (VFloat64 v) isLogistic = (if v \<noteq> 0 \<and> v \<noteq> 1 then False else isLogistic)"
| "autoBinary _ isLogistic = isLogistic"

definition NewAutoModel :: "gomap \<Rightarrow> Model" where
  "NewAutoModel outputSample =
     (case fold (\<lambda>(key, v). autoFlags v) outputSample (False, False, False) of
        (hasString, hasNumeric, hasBoolean) \<Rightarrow>
          if (hasString \<and> hasNumeric) \<or> (hasString \<and> hasBoolean) \<or> (hasNumeric \<and> hasBoolean)
          then NewMixedModel
          else if hasString then NewCategoricalModel
          else let isLogistic = hasBoolean;
                   isLogistic = (if \<not> isLogistic \<and> hasNumeric
                                 then fold (\<lambda>(key, v). autoBinary v) outputSample True
                                 else isLogistic)
               in if isLogistic then NewLogisticModel else NewLinearModel)"

section \<open>The fmt package\<close>

text \<open>
  \<^verbatim>\<open>fmt.Sscanf\<close> and \<^verbatim>\<open>fmt.Sprintf("%v", _)\<close> are library code outside the repository. The
  functions that call them take them as a parameter: \<open>SscanfF s\<close> is the result of
  \<^verbatim>\<open>Sscanf(s, "%f", &v)\<close> (\<open>None\<close> when it returns an error), \<open>SscanfD s\<close> that of
  \<^verbatim>\<open>Sscanf(s, "%d", &v)\<close>, and \<open>SprintfV v\<close> the text of a value under \<^verbatim>\<open>%v\<close>. The \<^verbatim>\<open>%v\<close>
  text of a string is the string and that of a boolean is \<^verbatim>\<open>true\<close> or \<^verbatim>\<open>false\<close>; this much is
  fixed here. The format \<^verbatim>\<open>"%s->%s"\<close> is concatenation.
\<close>

record fmtlib =
  SscanfF :: "string \<Rightarrow> real option"
  SscanfD :: "string \<Rightarrow> int option"
  SprintfV :: "val \<Rightarrow> string"

definition sprintV :: "fmtlib \<Rightarrow> val \<Rightarrow> string" where
  "sprintV fmt v =
     (case v of VString s \<Rightarrow> s
      | VBool b \<Rightarrow> (if b then ''true'' else ''false'')
      | _ \<Rightarrow> SprintfV fmt v)"

text \<open>
  A decimal instance for the examples: an optional sign and decimal digits, with an
  optional fraction for \<^verbatim>\<open>%f\<close>; whatever follows is left unread, as \<^verbatim>\<open>Sscanf\<close> does. It
  prints the integer types in decimal and has no text for the other numbers.
\<close>

definition isDigit :: "char \<Rightarrow> bool" where
  "isDigit c = (48 \<le> (of_char c :: nat) \<and> (of_char c :: nat) \<le> 57)"

definition natOfDigits :: "string \<Rightarrow> nat" where
  "natOfDigits ds = foldl (\<lambda>a c. 10 * a + ((of_char c :: nat) - 48)) 0 ds"

definition unsign :: "string \<Rightarrow> bool \<times> string" where
  "unsign s = (case s of [] \<Rightarrow> (False, [])
     | c # r \<Rightarrow> if c = CHR ''-'' then (True, r) else if c = CHR ''+'' then (False, r) else (False, s))"

definition scanDecimalInt :: "string \<Rightarrow> int option" where
  "scanDecimalInt s =
     (case unsign s of (neg, r) \<Rightarrow>
        let ds = takeWhile isDigit r
        in if ds = [] then None
           else Some (if neg then - int (natOfDigits ds) else int (natOfDigits ds)))"

definition scanDecimalFloat :: "string \<Rightarrow> real option" where
  "scanDecimalFloat s =
     (case unsign s of (neg, r) \<Rightarrow>
        let ds = takeWhile isDigit r;
            rest = dropWhile isDigit r;
            fs = (case rest of [] \<Rightarrow> [] | c # r' \<Rightarrow> if c = CHR ''.'' then takeWhile isDigit r' else []);
            x = real (natOfDigits ds) + real (natOfDigits fs) / 10 ^ length fs
        in if ds = [] \<and> fs = [] then None else Some (if neg then - x else x))"

fun digitsOfNat :: "nat \<Rightarrow> nat \<Rightarrow> string" where
  "digitsOfNat 0 n = []"
| "digitsOfNat (Suc fuel) n =
     (if n < 10 then [char_of (48 + n)]
      else digitsOfNat fuel (n div 10) @ [char_of (48 + n mod 10)])"

definition printDecimalInt :: "int \<Rightarrow> string" where
  "printDecimalInt i =
     (if i < 0 then CHR ''-'' # digitsOfNat (Suc (nat (- i))) (nat (- i))
      else digitsOfNat (Suc (nat i)) (nat i))"

definition decimalFmt :: fmtlib where
  "decimalFmt = \<lparr>SscanfF = scanDecimalFloat, SscanfD = scanDecimalInt,
     SprintfV = (\<lambda>v. case v of VInt i \<Rightarrow> printDecimalInt i
                     | VInt64 i \<Rightarrow> printDecimalInt i
                     | VInt32 i \<Rightarrow> printDecimalInt i
                     | _ \<Rightarrow> ''?'')\<rparr>"

section \<open>weights.go\<close>

definition Get :: "Weights \<Rightarrow> string \<Rightarrow> val option" where
  "Get w key = lookup (Values w) key"

definition Set :: "Weights \<Rightarrow> string \<Rightarrow> val \<Rightarrow> Weights option" where
  "Set w key v =
     (case Values w of None \<Rightarrow> None
      | Some m \<Rightarrow> Some (w\<lparr>Values := Some (AList.update key v m)\<rparr>))"

definition GetFloat :: "Weights \<Rightarrow> string \<Rightarrow> real \<times> bool" where
  "GetFloat w key =
     (case lookup (Values w) key of
        None \<Rightarrow> (0, False)
      | Some (VFloat64 v) \<Rightarrow> (v, True)
      | Some (VInt v) \<Rightarrow> (real_of_int v, True)
      | Some (VInt64 v) \<Rightarrow> (real_of_int v, True)
      | Some _ \<Rightarrow> (0, False))"

section \<open>Shared pieces of the trainers and predictors\<close>

text \<open>
  Every trainer and predictor converts a feature value with the same inline type switch:
  \<^verbatim>\<open>float64\<close>, \<^verbatim>\<open>int\<close> and \<^verbatim>\<open>string\<close> are converted, any other dynamic type takes the
  \<^verbatim>\<open>default: continue\<close> branch and the field is skipped (\<open>None\<close>). \<^verbatim>\<open>ConvertToFloat64\<close> of
  utils.go is not called by any of them.
\<close>

fun featureSwitch :: "string \<Rightarrow> val \<Rightarrow> real option" where
  "featureSwitch feature (VFloat64 v) = Some v"
| "featureSwitch feature (VInt v) = Some (real_of_int v)"
| "featureSwitch feature (VString v) = Some (if v = feature then 1 else 0)"
| "featureSwitch feature _ = None"

text \<open>The switch on the actual target value in the linear and logistic trainers.\<close>

fun actualSwitch :: "val \<Rightarrow> real option" where
  "actualSwitch (VFloat64 v) = Some v"
| "actualSwitch (VInt v) = Some (real_of_int v)"
| "actualSwitch _ = None"

text \<open>
  The prediction loop over the fields of an input record, as written in
  \<^verbatim>\<open>predictLinearModel\<close>, \<^verbatim>\<open>predictLogisticModel\<close> and (with \<open>target\<close> standing for
  \<^verbatim>\<open>target:category\<close>) \<^verbatim>\<open>predictCategoricalModel\<close>, followed by the bias.
\<close>

definition weightedSum :: "gomap \<Rightarrow> Weights \<Rightarrow> string \<Rightarrow> real" where
  "weightedSum input w target =
     (let prediction =
            fold (\<lambda>(feature, featureValRaw) prediction.
                    case GetFloat w (feature @ ''->'' @ target) of
                      (weight, exists) \<Rightarrow>
                        if \<not> exists then prediction
                        else (case featureSwitch feature featureValRaw of
                                None \<Rightarrow> prediction
                              | Some featureVal \<Rightarrow> prediction + weight * featureVal))
                 input 0
      in case GetFloat w (''bias->'' @ target) of
           (bias, exists) \<Rightarrow> if exists then prediction + bias else prediction)"

section \<open>linear.go and logistic.go: prediction\<close>

fun splitArrow :: "string \<Rightarrow> string \<Rightarrow> string \<times> string" where
  "splitArrow pre (c # d # rest) =
     (if c = CHR ''-'' \<and> d = CHR ''>'' then (rev pre, rest) else splitArrow (c # pre) (d # rest))"
| "splitArrow pre rest = ([], [])"

definition splitWeightKey :: "string \<Rightarrow> string \<times> string" where
  "splitWeightKey key = splitArrow [] key"

text \<open>
  The targets are rebuilt from the keys of the weight store. \<^verbatim>\<open>splitWeightKey\<close> always returns
  two parts, so the second part of every key becomes a target.
\<close>

definition weightTargets :: "Weights \<Rightarrow> (string \<times> bool) list" where
  "weightTargets w =
     fold (\<lambda>(key, v) targets. case splitWeightKey key of (p0, p1) \<Rightarrow> AList.update p1 True targets)
       (entries (Values w)) []"

definition predictLinearModel :: "gomap \<Rightarrow> Weights \<Rightarrow> error + gomap" where
  "predictLinearModel input w =
     Inr (fold (\<lambda>(target, b) result. AList.update target (VFloat64 (weightedSum input w target)) result)
            (weightTargets w) [])"

definition sigmoid :: "real \<Rightarrow> real" where
  "sigmoid z = 1 / (1 + exp (- z))"

definition predictLogisticModel :: "gomap \<Rightarrow> Weights \<Rightarrow> error + gomap" where
  "predictLogisticModel input w =
     Inr (fold (\<lambda>(target, b) result.
                  AList.update target (VFloat64 (sigmoid (weightedSum input w target))) result)
            (weightTargets w) [])"

section \<open>categorical.go: prediction\<close>

definition MaxFloat64 :: real where
  "MaxFloat64 = (2 - 1 / 2 ^ 52) * 2 ^ 1023"

text \<open>The three loops of \<^verbatim>\<open>softmax\<close>: the maximum, the exponentials with their sum, the quotients.\<close>

definition softmaxMax :: "(string \<times> real) list \<Rightarrow> real" where
  "softmaxMax scores =
     fold (\<lambda>(category, score) maxScore. if score > maxScore then score else maxScore)
       scores (- MaxFloat64)"

definition softmaxExp :: "real \<Rightarrow> (string \<times> real) list \<Rightarrow> (string \<times> real) list \<times> real" where
  "softmaxExp maxScore scores =
     fold (\<lambda>(category, score) (expScores, sumExp).
             let expScore = exp (score - maxScore)
             in (AList.update category expScore expScores, sumExp + expScore))
       scores ([], 0)"

definition softmax :: "(string \<times> real) list \<Rightarrow> (string \<times> real) list" where
  "softmax scores =
     (let maxScore = softmaxMax scores
      in case softmaxExp maxScore scores of
           (expScores, sumExp) \<Rightarrow>
             fold (\<lambda>(category, expScore) probabilities.
                     AList.update category (expScore / sumExp) probabilities)
               expScores [])"

definition stringToFloat64 :: "fmtlib \<Rightarrow> string \<Rightarrow> real option" where
  "stringToFloat64 fmt s = SscanfF fmt s"

definition stringToInt :: "fmtlib \<Rightarrow> string \<Rightarrow> int option" where
  "stringToInt fmt s = SscanfD fmt s"

definition isNumeric :: "fmtlib \<Rightarrow> string \<Rightarrow> bool" where
  "isNumeric fmt s = (stringToFloat64 fmt s \<noteq> None \<or> stringToInt fmt s \<noteq> None)"

text \<open>The conversion of the winning category back to a number.\<close>

definition reparseCategory :: "fmtlib \<Rightarrow> string \<Rightarrow> val" where
  "reparseCategory fmt bestCategory =
     (if isNumeric fmt bestCategory then
        (if CHR ''.'' \<in> set bestCategory then
           (case stringToFloat64 fmt bestCategory of
              Some v \<Rightarrow> VFloat64 v | None \<Rightarrow> VString bestCategory)
         else
           (case stringToInt fmt bestCategory of
              Some v \<Rightarrow> VInt v | None \<Rightarrow> VString bestCategory))
      else VString bestCategory)"

definition categoryScores :: "gomap \<Rightarrow> Weights \<Rightarrow> string \<Rightarrow> (string \<times> int) list \<Rightarrow> (string \<times> real) list" where
  "categoryScores input w target categories =
     fold (\<lambda>(category, idx) scores.
             AList.update category (weightedSum input w (target @ '':'' @ category)) scores)
       categories []"

definition bestOf :: "(string \<times> real) list \<Rightarrow> string \<times> real" where
  "bestOf probabilities =
     fold (\<lambda>(category, prob) (bestCategory, bestProb).
             if prob > bestProb then (category, prob) else (bestCategory, bestProb))
       probabilities ([], 0)"

text \<open>The body of the loop over \<^verbatim>\<open>model.Categories\<close>.\<close>

definition predictCategoricalTarget ::
  "fmtlib \<Rightarrow> gomap \<Rightarrow> Weights \<Rightarrow> string \<Rightarrow> (string \<times> int) list \<Rightarrow> gomap \<Rightarrow> gomap" where
  "predictCategoricalTarget fmt input w target categories result =
     (if length categories \<le> 0 then result
      else
        let probabilities = softmax (categoryScores input w target categories);
            bestCategory = fst (bestOf probabilities)
        in if bestCategory \<noteq> [] then
             let result = AList.update target (reparseCategory fmt bestCategory) result;
                 probsMap = fold (\<lambda>(cat, prob) probsMap. AList.update cat prob probsMap) probabilities []
             in AList.update (target @ ''_probs'') (VProbs probsMap) result
           else result)"

definition predictCategoricalModel :: "fmtlib \<Rightarrow> gomap \<Rightarrow> Weights \<Rightarrow> Model \<Rightarrow> error + gomap" where
  "predictCategoricalModel fmt input w m =
     Inr (fold (\<lambda>(target, categories) result. predictCategoricalTarget fmt input w target categories result)
            (entries (Categories m)) [])"

section \<open>mixed.go: prediction\<close>

definition mixedLinearPart :: "Model \<Rightarrow> gomap \<Rightarrow> gomap \<Rightarrow> gomap" where
  "mixedLinearPart m linearPred result =
     fold (\<lambda>(k, v) result.
             if lookup (Targets m) k = Some (VString ''numeric'') then AList.update k v result
             else result)
       linearPred result"

definition mixedCategoricalPart :: "Model \<Rightarrow> gomap \<Rightarrow> gomap \<Rightarrow> gomap" where
  "mixedCategoricalPart m catPred result =
     fold (\<lambda>(k, v) result.
             if lookup (Targets m) k = Some (VString ''categorical'') then
               (let result = AList.update k v result;
                    probKey = k @ ''_probs''
                in case map_of catPred probKey of
                     Some probs \<Rightarrow> AList.update probKey probs result
                   | None \<Rightarrow> result)
             else result)
       catPred result"

definition mixedBooleanPart :: "Model \<Rightarrow> gomap \<Rightarrow> gomap \<Rightarrow> gomap" where
  "mixedBooleanPart m logPred result =
     fold (\<lambda>(k, v) result.
             if lookup (Targets m) k = Some (VString ''boolean'') then
               (case v of
                  VFloat64 prob \<Rightarrow>
                    if prob \<ge> 1 / 2 then AList.update k (VBool True) result
                    else AList.update k (VBool False) result
                | _ \<Rightarrow> AList.update k v result)
             else result)
       logPred result"

definition predictMixedModel :: "fmtlib \<Rightarrow> gomap \<Rightarrow> Weights \<Rightarrow> Model \<Rightarrow> error + gomap" where
  "predictMixedModel fmt input w m =
     (case predictLinearModel input w of
        Inl err \<Rightarrow> Inl err
      | Inr linearPred \<Rightarrow>
          (let result = mixedLinearPart m linearPred []
           in (case predictCategoricalModel fmt input w m of
                 Inl err \<Rightarrow> Inl err
               | Inr catPred \<Rightarrow>
                   (let result = mixedCategoricalPart m catPred result
                    in (case predictLogisticModel input w of
                          Inl err \<Rightarrow> Inl err
                        | Inr logPred \<Rightarrow> Inr (mixedBooleanPart m logPred result))))))"

section \<open>Loops that may panic\<close>

text \<open>
  A \<^verbatim>\<open>for\<close> loop over a slice whose body may panic: the state is threaded through the body,
  and the first \<open>None\<close> ends the run.
\<close>

fun forEach :: "'a list \<Rightarrow> ('a \<Rightarrow> 's \<Rightarrow> 's option) \<Rightarrow> 's \<Rightarrow> 's option" where
  "forEach [] body s = Some s"
| "forEach (x # xs) body s = (case body x s of None \<Rightarrow> None | Some s' \<Rightarrow> forEach xs body s')"

text \<open>\<^verbatim>\<open>if _, exists := weights.Get(key); !exists { weights.Set(key, 0.0) }\<close>\<close>

definition ensureWeight :: "string \<Rightarrow> Weights \<Rightarrow> Weights option" where
  "ensureWeight key w = (if Get w key = None then Set w key (VFloat64 0) else Some w)"

text \<open>
  The loop \<^verbatim>\<open>for batchStart := 0; batchStart < len(inputs); batchStart += config.BatchSize\<close>.
  With a batch size of 0 the counter never moves and the loop never ends. With a negative
  batch size the 64-bit counter would have to wrap around before the loop ends; the model
  counts that as not returning either. \<open>step batchStart batchEnd\<close> is the body.
\<close>

function batchLoop ::
  "(nat \<Rightarrow> nat \<Rightarrow> Weights \<Rightarrow> Weights option) \<Rightarrow> nat \<Rightarrow> nat \<Rightarrow> nat \<Rightarrow> Weights \<Rightarrow> Weights option" where
  "batchLoop step batchSize n batchStart w =
     (if batchStart < n then
        (if batchSize = 0 then None
         else case step batchStart (if batchStart + batchSize > n then n else batchStart + batchSize) w of
                None \<Rightarrow> None
              | Some w' \<Rightarrow> batchLoop step batchSize n (batchStart + batchSize) w')
      else Some w)"
  by pat_completeness auto
termination
  by (relation "measure (\<lambda>(step, batchSize, n, batchStart, w). n - batchStart)") auto

definition batches ::
  "(nat \<Rightarrow> nat \<Rightarrow> Weights \<Rightarrow> Weights option) \<Rightarrow> Config \<Rightarrow> nat \<Rightarrow> Weights \<Rightarrow> Weights option" where
  "batches step c n w =
     (if 0 < n \<and> BatchSize c \<le> 0 then None else batchLoop step (nat (BatchSize c)) n 0 w)"

section \<open>linear.go: training\<close>

text \<open>
  The prediction for one training example, as written out in the gradient loops and in
  \<^verbatim>\<open>calculateMSE\<close>: a feature without a float weight, a feature missing from the example and a
  feature of a skipped type contribute nothing. (The bias loop adds the value of \<^verbatim>\<open>GetFloat\<close>
  without looking at \<^verbatim>\<open>exists\<close>; that value is 0 when the bias is absent.)
\<close>

definition trainPredicted :: "string list \<Rightarrow> string \<Rightarrow> Weights \<Rightarrow> gomap \<Rightarrow> real" where
  "trainPredicted features target w input =
     (let predicted =
            fold (\<lambda>f predicted.
                    case GetFloat w (f @ ''->'' @ target) of
                      (wv, exists) \<Rightarrow>
                        if \<not> exists then predicted
                        else (case map_of input f of
                                None \<Rightarrow> predicted
                              | Some fVal \<Rightarrow>
                                  (case featureSwitch f fVal of
                                     None \<Rightarrow> predicted
                                   | Some fValFloat \<Rightarrow> predicted + wv * fValFloat)))
                 features 0
      in case GetFloat w (''bias->'' @ target) of
           (bias, exists) \<Rightarrow> if exists then predicted + bias else predicted)"

definition initWeights :: "string list \<Rightarrow> string list \<Rightarrow> Weights \<Rightarrow> Weights option" where
  "initWeights features targets w =
     (case forEach features
             (\<lambda>feature. forEach targets (\<lambda>target. ensureWeight (feature @ ''->'' @ target))) w of
        None \<Rightarrow> None
      | Some w' \<Rightarrow> forEach targets (\<lambda>target. ensureWeight (''bias->'' @ target)) w')"

text \<open>
  The mean of a feature over the examples where its value has Go type float64 or int. (The
  target means are computed and printed by the code but never used; they are left out, as
  is all printing.)
\<close>

definition featureSum :: "gomap list \<Rightarrow> string \<Rightarrow> real \<times> int" where
  "featureSum inputs feature =
     fold (\<lambda>input (acc, count).
             case map_of input feature of
               Some (VFloat64 v) \<Rightarrow> (acc + v, count + 1)
             | Some (VInt v) \<Rightarrow> (acc + real_of_int v, count + 1)
             | _ \<Rightarrow> (acc, count))
       inputs (0, 0)"

definition featureMeans :: "gomap list \<Rightarrow> string list \<Rightarrow> (string \<times> real) list" where
  "featureMeans inputs features =
     fold (\<lambda>feature means.
             case featureSum inputs feature of
               (acc, count) \<Rightarrow>
                 if count > 0 then AList.update feature (acc / real_of_int count) means else means)
       features []"

definition normalized :: "(string \<times> real) list \<Rightarrow> string \<Rightarrow> real \<Rightarrow> real" where
  "normalized means feature v =
     (case map_of means feature of
        Some mean \<Rightarrow> if mean \<noteq> 0 then v / mean else v
      | None \<Rightarrow> v)"

fun normSwitch :: "(string \<times> real) list \<Rightarrow> string \<Rightarrow> val \<Rightarrow> real option" where
  "normSwitch means feature (VFloat64 v) = Some (normalized means feature v)"
| "normSwitch means feature (VInt v) = Some (normalized means feature (real_of_int v))"
| "normSwitch means feature (VString v) = Some (if v = feature then 1 else 0)"
| "normSwitch means feature _ = None"

text \<open>
  One pass of the loop \<^verbatim>\<open>for i := batchStart; i < batchEnd; i++\<close> that accumulates the gradient
  of a weight. Each \<^verbatim>\<open>continue\<close> leaves the gradient as it is; \<^verbatim>\<open>outputs[i]\<close> panics when
  \<open>i\<close> is out of range.
\<close>

definition linearGradientTerm ::
  "(string \<times> real) list \<Rightarrow> string list \<Rightarrow> gomap list \<Rightarrow> gomap list \<Rightarrow> Weights \<Rightarrow>
   string \<Rightarrow> string \<Rightarrow> nat \<Rightarrow> real \<Rightarrow> real option" where
  "linearGradientTerm means features inputs outputs w target feature i gradient =
     (case map_of (inputs ! i) feature of
        None \<Rightarrow> Some gradient
      | Some featureValRaw \<Rightarrow>
          (case normSwitch means feature featureValRaw of
             None \<Rightarrow> Some gradient
           | Some featureVal \<Rightarrow>
               let predicted = trainPredicted features target w (inputs ! i)
               in if i \<ge> length outputs then None
                  else (case map_of (outputs ! i) target of
                          None \<Rightarrow> Some gradient
                        | Some actualRaw \<Rightarrow>
                            (case actualSwitch actualRaw of
                               None \<Rightarrow> Some gradient
                             | Some actual \<Rightarrow> Some (gradient + (predicted - actual) * featureVal)))))"

definition linearUpdateWeight ::
  "Config \<Rightarrow> (string \<times> real) list \<Rightarrow> string list \<Rightarrow> gomap list \<Rightarrow> gomap list \<Rightarrow>
   nat \<Rightarrow> nat \<Rightarrow> string \<Rightarrow> string \<Rightarrow> Weights \<Rightarrow> Weights option" where
  "linearUpdateWeight c means features inputs outputs batchStart batchEnd target feature w =
     (case forEach [batchStart..<batchEnd]
             (linearGradientTerm means features inputs outputs w target feature) 0 of
        None \<Rightarrow> None
      | Some gradient \<Rightarrow>
          let gradient = gradient / real (batchEnd - batchStart);
              currentWeight = fst (GetFloat w (feature @ ''->'' @ target));
              regularizationTerm = Regularize c * currentWeight;
              newWeight = currentWeight - LearningRate c * (gradient + regularizationTerm)
          in Set w (feature @ ''->'' @ target) (VFloat64 newWeight))"

definition linearBiasTerm ::
  "string list \<Rightarrow> gomap list \<Rightarrow> gomap list \<Rightarrow> Weights \<Rightarrow> string \<Rightarrow> nat \<Rightarrow> real \<Rightarrow> real option" where
  "linearBiasTerm features inputs outputs w target i biasGradient =
     (let predicted = trainPredicted features target w (inputs ! i)
      in if i \<ge> length outputs then None
         else (case map_of (outputs ! i) target of
                 None \<Rightarrow> Some biasGradient
               | Some actualRaw \<Rightarrow>
                   (case actualSwitch actualRaw of
                      None \<Rightarrow> Some biasGradient
                    | Some actual \<Rightarrow> Some (biasGradient + (predicted - actual)))))"

definition linearUpdateBias ::
  "Config \<Rightarrow> string list \<Rightarrow> gomap list \<Rightarrow> gomap list \<Rightarrow> nat \<Rightarrow> nat \<Rightarrow> string \<Rightarrow>
   Weights \<Rightarrow> Weights option" where
  "linearUpdateBias c features inputs outputs batchStart batchEnd target w =
     (case forEach [batchStart..<batchEnd] (linearBiasTerm features inputs outputs w target) 0 of
        None \<Rightarrow> None
      | Some biasGradient \<Rightarrow>
          let biasGradient = biasGradient / real (batchEnd - batchStart);
              currentBias = fst (GetFloat w (''bias->'' @ target));
              newBias = currentBias - LearningRate c * biasGradient
          in Set w (''bias->'' @ target) (VFloat64 newBias))"

text \<open>The body of the batch loop: every target, and for each target every feature, then the bias.\<close>

definition linearBatch ::
  "Config \<Rightarrow> (string \<times> real) list \<Rightarrow> string list \<Rightarrow> string list \<Rightarrow> gomap list \<Rightarrow> gomap list \<Rightarrow>
   nat \<Rightarrow> nat \<Rightarrow> Weights \<Rightarrow> Weights option" where
  "linearBatch c means features targets inputs outputs batchStart batchEnd w =
     forEach targets
       (\<lambda>target w.
          case forEach features
                 (linearUpdateWeight c means features inputs outputs batchStart batchEnd target) w of
            None \<Rightarrow> None
          | Some w' \<Rightarrow> linearUpdateBias c features inputs outputs batchStart batchEnd target w')
       w"

definition calculateMSE ::
  "gomap list \<Rightarrow> gomap list \<Rightarrow> Weights \<Rightarrow> string list \<Rightarrow> string list \<Rightarrow> real option" where
  "calculateMSE inputs outputs w features targets =
     (case forEach [0..<length inputs]
             (\<lambda>i. forEach targets
                (\<lambda>target (totalMSE, sampleCount).
                   let prediction = trainPredicted features target w (inputs ! i)
                   in if i \<ge> length outputs then None
                      else (case map_of (outputs ! i) target of
                              None \<Rightarrow> Some (totalMSE, sampleCount)
                            | Some actualRaw \<Rightarrow>
                                (case actualSwitch actualRaw of
                                   None \<Rightarrow> Some (totalMSE, sampleCount)
                                 | Some actual \<Rightarrow>
                                     Some (totalMSE + (prediction - actual) * (prediction - actual),
                                           sampleCount + (1::int))))))
             (0, 0) of
        None \<Rightarrow> None
      | Some (totalMSE, sampleCount) \<Rightarrow>
          if sampleCount = 0 then Some 0 else Some (totalMSE / real_of_int sampleCount))"

text \<open>
  The epoch loop, generic in the loss and in the batch body (the logistic trainer has the
  same loop): \<open>k\<close> epochs remain; an epoch whose loss moves by less than the tolerance is the
  last one.
\<close>

fun epochLoop ::
  "nat \<Rightarrow> Config \<Rightarrow> (Weights \<Rightarrow> real option) \<Rightarrow> (nat \<Rightarrow> nat \<Rightarrow> Weights \<Rightarrow> Weights option) \<Rightarrow>
   nat \<Rightarrow> Weights \<Rightarrow> Weights option" where
  "epochLoop 0 c loss step n w = Some w"
| "epochLoop (Suc k) c loss step n w =
     (case loss w of
        None \<Rightarrow> None
      | Some prevLoss \<Rightarrow>
          (case batches step c n w of
             None \<Rightarrow> None
           | Some w' \<Rightarrow>
               (case loss w' of
                  None \<Rightarrow> None
                | Some currentLoss \<Rightarrow>
                    if \<bar>prevLoss - currentLoss\<bar> < Tolerance c then Some w'
                    else epochLoop k c loss step n w')))"

definition trainLinearModel ::
  "gomap list \<Rightarrow> gomap list \<Rightarrow> Weights \<Rightarrow> Config option \<Rightarrow> (error option \<times> Weights) option" where
  "trainLinearModel inputs outputs w cfg =
     (case inputs of
        [] \<Rightarrow> Some (Some ErrInvalidInput, w)
      | input0 # _ \<Rightarrow>
          (case outputs of
             [] \<Rightarrow> Some (Some ErrInvalidOutput, w)
           | output0 # _ \<Rightarrow>
               (let features = map fst input0;
                    targets = map fst output0
                in (case initWeights features targets w of
                      None \<Rightarrow> None
                    | Some w1 \<Rightarrow>
                        (let means = featureMeans inputs features
                         in (case cfg of
                               None \<Rightarrow> None
                             | Some c \<Rightarrow>
                                 (case epochLoop (nat (Epochs c)) c
                                         (\<lambda>w. calculateMSE inputs outputs w features targets)
                                         (linearBatch c means features targets inputs outputs)
                                         (length inputs) w1 of
                                    None \<Rightarrow> None
                                  | Some w2 \<Rightarrow> Some (None, w2))))))))"

section \<open>logistic.go: training\<close>

definition logisticGradientTerm ::
  "string list \<Rightarrow> gomap list \<Rightarrow> gomap list \<Rightarrow> Weights \<Rightarrow>
   string \<Rightarrow> string \<Rightarrow> nat \<Rightarrow> real \<Rightarrow> real option" where
  "logisticGradientTerm features inputs outputs w target feature i gradient =
     (case map_of (inputs ! i) feature of
        None \<Rightarrow> Some gradient
      | Some featureValRaw \<Rightarrow>
          (case featureSwitch feature featureValRaw of
             None \<Rightarrow> Some gradient
           | Some featureVal \<Rightarrow>
               let predicted = sigmoid (trainPredicted features target w (inputs ! i))
               in if i \<ge> length outputs then None
                  else (case map_of (outputs ! i) target of
                          None \<Rightarrow> Some gradient
                        | Some actualRaw \<Rightarrow>
                            (case actualSwitch actualRaw of
                               None \<Rightarrow> Some gradient
                             | Some actual \<Rightarrow> Some (gradient + (predicted - actual) * featureVal)))))"

definition logisticUpdateWeight ::
  "Config \<Rightarrow> string list \<Rightarrow> gomap list \<Rightarrow> gomap list \<Rightarrow>
   nat \<Rightarrow> nat \<Rightarrow> string \<Rightarrow> string \<Rightarrow> Weights \<Rightarrow> Weights option" where
  "logisticUpdateWeight c features inputs outputs batchStart batchEnd target feature w =
     (case forEach [batchStart..<batchEnd]
             (logisticGradientTerm features inputs outputs w target feature) 0 of
        None \<Rightarrow> None
      | Some gradient \<Rightarrow>
          let gradient = gradient / real (batchEnd - batchStart);
              currentWeight = fst (GetFloat w (feature @ ''->'' @ target));
              regularizationTerm = Regularize c * currentWeight;
              newWeight = currentWeight - LearningRate c * (gradient + regularizationTerm)
          in Set w (feature @ ''->'' @ target) (VFloat64 newWeight))"

definition logisticBiasTerm ::
  "string list \<Rightarrow> gomap list \<Rightarrow> gomap list \<Rightarrow> Weights \<Rightarrow> string \<Rightarrow> nat \<Rightarrow> real \<Rightarrow> real option" where
  "logisticBiasTerm features inputs outputs w target i biasGradient =
     (let predicted = sigmoid (trainPredicted features target w (inputs ! i))
      in if i \<ge> length outputs then None
         else (case map_of (outputs ! i) target of
                 None \<Rightarrow> Some biasGradient
               | Some actualRaw \<Rightarrow>
                   (case actualSwitch actualRaw of
                      None \<Rightarrow> Some biasGradient
                    | Some actual \<Rightarrow> Some (biasGradient + (predicted - actual)))))"

definition logisticUpdateBias ::
  "Config \<Rightarrow> string list \<Rightarrow> gomap list \<Rightarrow> gomap list \<Rightarrow> nat \<Rightarrow> nat \<Rightarrow> string \<Rightarrow>
   Weights \<Rightarrow> Weights option" where
  "logisticUpdateBias c features inputs outputs batchStart batchEnd target w =
     (case forEach [batchStart..<batchEnd] (logisticBiasTerm features inputs outputs w target) 0 of
        None \<Rightarrow> None
      | Some biasGradient \<Rightarrow>
          let biasGradient = biasGradient / real (batchEnd - batchStart);
              currentBias = fst (GetFloat w (''bias->'' @ target));
              newBias = currentBias - LearningRate c * biasGradient
          in Set w (''bias->'' @ target) (VFloat64 newBias))"

definition logisticBatch ::
  "Config \<Rightarrow> string list \<Rightarrow> string list \<Rightarrow> gomap list \<Rightarrow> gomap list \<Rightarrow>
   nat \<Rightarrow> nat \<Rightarrow> Weights \<Rightarrow> Weights option" where
  "logisticBatch c features targets inputs outputs batchStart batchEnd w =
     forEach targets
       (\<lambda>target w.
          case forEach features
                 (logisticUpdateWeight c features inputs outputs batchStart batchEnd target) w of
            None \<Rightarrow> None
          | Some w' \<Rightarrow> logisticUpdateBias c features inputs outputs batchStart batchEnd target w')
       w"

definition calculateLogLoss ::
  "gomap list \<Rightarrow> gomap list \<Rightarrow> Weights \<Rightarrow> string list \<Rightarrow> string list \<Rightarrow> real option" where
  "calculateLogLoss inputs outputs w features targets =
     (case forEach [0..<length inputs]
             (\<lambda>i. forEach targets
                (\<lambda>target (totalLoss, sampleCount).
                   let prediction = sigmoid (trainPredicted features target w (inputs ! i))
                   in if i \<ge> length outputs then None
                      else (case map_of (outputs ! i) target of
                              None \<Rightarrow> Some (totalLoss, sampleCount)
                            | Some actualRaw \<Rightarrow>
                                (case actualSwitch actualRaw of
                                   None \<Rightarrow> Some (totalLoss, sampleCount)
                                 | Some actual \<Rightarrow>
                                     let clippedPred = max (min prediction (9999 / 10000)) (1 / 10000);
                                         loss = - (actual * ln clippedPred
                                                   + (1 - actual) * ln (1 - clippedPred))
                                     in Some (totalLoss + loss, sampleCount + (1::int))))))
             (0, 0) of
        None \<Rightarrow> None
      | Some (totalLoss, sampleCount) \<Rightarrow>
          if sampleCount = 0 then Some 0 else Some (totalLoss / real_of_int sampleCount))"

definition trainLogisticModel ::
  "gomap list \<Rightarrow> gomap list \<Rightarrow> Weights \<Rightarrow> Config option \<Rightarrow> (error option \<times> Weights) option" where
  "trainLogisticModel inputs outputs w cfg =
     (case inputs of
        [] \<Rightarrow> Some (Some ErrInvalidInput, w)
      | input0 # _ \<Rightarrow>
          (case outputs of
             [] \<Rightarrow> Some (Some ErrInvalidOutput, w)
           | output0 # _ \<Rightarrow>
               (let features = map fst input0;
                    targets = map fst output0
                in case initWeights features targets w of
                    None \<Rightarrow> None
                  | Some w1 \<Rightarrow>
                      (case cfg of
                         None \<Rightarrow> None
                       | Some c \<Rightarrow>
                           (case epochLoop (nat (Epochs c)) c
                                   (\<lambda>w. calculateLogLoss inputs outputs w features targets)
                                   (logisticBatch c features targets inputs outputs)
                                   (length inputs) w1 of
                              None \<Rightarrow> None
                            | Some w2 \<Rightarrow> Some (None, w2))))))"

section \<open>categorical.go: training\<close>

text \<open>
  The first loop over the targets: the labels of a target are the \<^verbatim>\<open>%v\<close> texts of its values
  in the training outputs; a label that has no index yet gets the next value of a counter
  that starts at 0 in every call.
\<close>

definition recordCategories :: "fmtlib \<Rightarrow> gomap list \<Rightarrow> string \<Rightarrow> catmap \<Rightarrow> catmap" where
  "recordCategories fmt outputs target cats =
     (let existing = (case map_of cats target of None \<Rightarrow> [] | Some cs \<Rightarrow> cs);
          categoryCount =
            fold (\<lambda>out categoryCount.
                    case map_of out target of
                      None \<Rightarrow> categoryCount
                    | Some v \<Rightarrow>
                        let category = sprintV fmt v
                        in AList.update category
                             ((case map_of categoryCount category of None \<Rightarrow> 0 | Some n \<Rightarrow> n) + (1::int))
                             categoryCount)
                 outputs []
      in case fold (\<lambda>(category, n) (cs, idx).
                      if map_of cs category = None then (AList.update category idx cs, idx + 1)
                      else (cs, idx))
                categoryCount (existing, 0::int) of
           (cs, idx) \<Rightarrow> AList.update target cs cats)"

definition trainScore :: "string list \<Rightarrow> string \<Rightarrow> string \<Rightarrow> Weights \<Rightarrow> gomap \<Rightarrow> real" where
  "trainScore features target category w input =
     (let score =
            fold (\<lambda>feature score.
                    let featureWeight = fst (GetFloat w (feature @ ''->'' @ target @ '':'' @ category))
                    in case map_of input feature of
                         None \<Rightarrow> score
                       | Some featureVal \<Rightarrow>
                           (case featureSwitch feature featureVal of
                              None \<Rightarrow> score
                            | Some featureValFloat \<Rightarrow> score + featureWeight * featureValFloat))
                 features 0;
          bias = fst (GetFloat w (''bias->'' @ target @ '':'' @ category))
      in score + bias)"

text \<open>The update of the weights and of the bias of one category for one example.\<close>

definition categoricalUpdate ::
  "Config \<Rightarrow> string list \<Rightarrow> gomap \<Rightarrow> string \<Rightarrow> string \<Rightarrow> (string \<times> real) list \<Rightarrow> string \<Rightarrow>
   Weights \<Rightarrow> Weights option" where
  "categoricalUpdate c features input target actualCategory probabilities category w =
     (let targetProbability = (if category = actualCategory then 1 else 0);
          gradient = (case map_of probabilities category of None \<Rightarrow> 0 | Some p \<Rightarrow> p) - targetProbability
      in case forEach features
                (\<lambda>feature w.
                   let weightKey = feature @ ''->'' @ target @ '':'' @ category;
                       currentWeight = fst (GetFloat w weightKey)
                   in case map_of input feature of
                        None \<Rightarrow> Some w
                      | Some featureVal \<Rightarrow>
                          (case featureSwitch feature featureVal of
                             None \<Rightarrow> Some w
                           | Some featureValFloat \<Rightarrow>
                               let regularizationTerm = Regularize c * currentWeight;
                                   newWeight = currentWeight
                                     - LearningRate c * (gradient * featureValFloat + regularizationTerm)
                               in Set w weightKey (VFloat64 newWeight)))
                w of
           None \<Rightarrow> None
         | Some w' \<Rightarrow>
             let biasKey = ''bias->'' @ target @ '':'' @ category;
                 currentBias = fst (GetFloat w' biasKey);
                 newBias = currentBias - LearningRate c * gradient
             in Set w' biasKey (VFloat64 newBias))"

text \<open>One example of one epoch: the body of \<^verbatim>\<open>for i := range inputs\<close>.\<close>

definition categoricalExample ::
  "fmtlib \<Rightarrow> Config \<Rightarrow> string list \<Rightarrow> gomap list \<Rightarrow> gomap list \<Rightarrow> string \<Rightarrow>
   (string \<times> int) list \<Rightarrow> nat \<Rightarrow> Weights \<Rightarrow> Weights option" where
  "categoricalExample fmt c features inputs outputs target categories i w =
     (let scores = fold (\<lambda>(category, idx) scores.
                           AList.update category (trainScore features target category w (inputs ! i)) scores)
                     categories [];
          probabilities = softmax scores
      in if i \<ge> length outputs then None
         else (case map_of (outputs ! i) target of
                 None \<Rightarrow> Some w
               | Some actualValue \<Rightarrow>
                   let actualCategory = sprintV fmt actualValue
                   in forEach (map fst categories)
                        (categoricalUpdate c features (inputs ! i) target actualCategory probabilities) w))"

text \<open>
  The body of the second loop over the targets. A target with at most one category takes
  the \<^verbatim>\<open>continue\<close>. \<^verbatim>\<open>config.Epochs\<close> is read only after the weights of the target exist.
\<close>

definition trainCategoricalTarget ::
  "fmtlib \<Rightarrow> Config option \<Rightarrow> string list \<Rightarrow> gomap list \<Rightarrow> gomap list \<Rightarrow> catmap \<Rightarrow> string \<Rightarrow>
   Weights \<Rightarrow> Weights option" where
  "trainCategoricalTarget fmt cfg features inputs outputs cats target w =
     (let categories = (case map_of cats target of None \<Rightarrow> [] | Some cs \<Rightarrow> cs);
          numCategories = length categories
      in if numCategories \<le> 1 then Some w
         else
           (case forEach categories
                   (\<lambda>(category, idx) w.
                      case forEach features
                             (\<lambda>feature. ensureWeight (feature @ ''->'' @ target @ '':'' @ category)) w of
                        None \<Rightarrow> None
                      | Some w' \<Rightarrow> ensureWeight (''bias->'' @ target @ '':'' @ category) w')
                   w of
              None \<Rightarrow> None
            | Some w1 \<Rightarrow>
                (case cfg of
                   None \<Rightarrow> None
                 | Some c \<Rightarrow>
                     forEach [0..<nat (Epochs c)]
                       (\<lambda>epoch. forEach [0..<length inputs]
                                   (categoricalExample fmt c features inputs outputs target categories))
                       w1)))"

definition trainCategoricalModel ::
  "fmtlib \<Rightarrow> gomap list \<Rightarrow> gomap list \<Rightarrow> Weights \<Rightarrow> Config option \<Rightarrow> Model \<Rightarrow>
   (error option \<times> Weights \<times> Model) option" where
  "trainCategoricalModel fmt inputs outputs w cfg m =
     (case inputs of
        [] \<Rightarrow> Some (Some ErrInvalidInput, w, m)
      | input0 # _ \<Rightarrow>
          (case outputs of
             [] \<Rightarrow> Some (Some ErrInvalidOutput, w, m)
           | output0 # _ \<Rightarrow>
               (let features = map fst input0;
                    targets = map fst output0;
                    cats = fold (recordCategories fmt outputs) targets (entries (Categories m));
                    m' = m\<lparr>Categories := Some cats\<rparr>
                in case forEach targets (trainCategoricalTarget fmt cfg features inputs outputs cats) w of
                     None \<Rightarrow> None
                   | Some w' \<Rightarrow> Some (None, w', m'))))"

section \<open>mixed.go: training\<close>

text \<open>
  The type switch on a field of the first output record: the tag recorded in
  \<^verbatim>\<open>model.Targets\<close>, or \<open>None\<close> for the \<^verbatim>\<open>default: continue\<close>.
\<close>

fun targetTag :: "val \<Rightarrow> string option" where
  "targetTag (VInt num) = (if num = 0 \<or> num = 1 then Some ''boolean'' else Some ''numeric'')"
| "targetTag (VFloat64 num) = (if num = 0 \<or> num = 1 then Some ''boolean'' else Some ''numeric'')"
| "targetTag (VInt64 v) = Some ''numeric''"
| "targetTag (VInt32 v) = Some ''numeric''"
| "targetTag (VFloat32 v) = Some ''numeric''"
| "targetTag (VBool v) = Some ''boolean''"
| "targetTag (VString v) = Some ''categorical''"
| "targetTag _ = None"

text \<open>\<^verbatim>\<open>for i, output := range outputs { if v, ok := output[key]; ok { bucket[i][key] = v } }\<close>\<close>

definition copyField :: "string \<Rightarrow> gomap list \<Rightarrow> gomap list \<Rightarrow> gomap list" where
  "copyField key outputs bucket =
     map (\<lambda>(output, b). case map_of output key of Some v \<Rightarrow> AList.update key v b | None \<Rightarrow> b)
       (zip outputs bucket)"

text \<open>
  One field of the first output record, on the state \<open>(model.Targets, numericOutputs,
  categoricalOutputs, booleanOutputs)\<close>. Recording the tag in a nil \<^verbatim>\<open>model.Targets\<close> panics.
\<close>

definition splitField ::
  "gomap list \<Rightarrow> string \<times> val \<Rightarrow> gomap option \<times> gomap list \<times> gomap list \<times> gomap list \<Rightarrow>
   (gomap option \<times> gomap list \<times> gomap list \<times> gomap list) option" where
  "splitField outputs kv st =
     (case kv of (key, v) \<Rightarrow>
      case st of (targetsMap, numericOutputs, categoricalOutputs, booleanOutputs) \<Rightarrow>
        (case targetTag v of
           None \<Rightarrow> Some st
         | Some tag \<Rightarrow>
             (case targetsMap of
                None \<Rightarrow> None
              | Some tm \<Rightarrow>
                  let tm' = Some (AList.update key (VString tag) tm)
                  in if tag = ''numeric'' then
                       Some (tm', copyField key outputs numericOutputs, categoricalOutputs, booleanOutputs)
                     else if tag = ''boolean'' then
                       Some (tm', numericOutputs, categoricalOutputs, copyField key outputs booleanOutputs)
                     else
                       Some (tm', numericOutputs, copyField key outputs categoricalOutputs, booleanOutputs))))"

text \<open>The number of fields of the first non-empty record of a bucket.\<close>

definition targetCount :: "gomap list \<Rightarrow> nat" where
  "targetCount bucket = (case filter (\<lambda>output. length output > 0) bucket of [] \<Rightarrow> 0 | output # _ \<Rightarrow> length output)"

definition trainMixedModel ::
  "fmtlib \<Rightarrow> gomap list \<Rightarrow> gomap list \<Rightarrow> Weights \<Rightarrow> Config option \<Rightarrow> Model \<Rightarrow>
   (error option \<times> Weights \<times> Model) option" where
  "trainMixedModel fmt inputs outputs w cfg m =
     (case outputs of
        [] \<Rightarrow> Some (Some ErrInvalidOutput, w, m)
      | output0 # _ \<Rightarrow>
          (case forEach output0 (splitField outputs)
                  (Targets m, replicate (length outputs) [], replicate (length outputs) [],
                   replicate (length outputs) []) of
             None \<Rightarrow> None
           | Some (tm, numericOutputs, categoricalOutputs, booleanOutputs) \<Rightarrow>
               (let m1 = m\<lparr>Targets := tm\<rparr>
                in case (if targetCount numericOutputs > 0
                        then trainLinearModel inputs numericOutputs w cfg else Some (None, w)) of
                    None \<Rightarrow> None
                  | Some (Some err, w1) \<Rightarrow> Some (Some (NumericTargetsError err), w1, m1)
                  | Some (None, w1) \<Rightarrow>
                      (case (if targetCount categoricalOutputs > 0
                             then trainCategoricalModel fmt inputs categoricalOutputs w1 cfg m1
                             else Some (None, w1, m1)) of
                         None \<Rightarrow> None
                       | Some (Some err, w2, m2) \<Rightarrow> Some (Some (CategoricalTargetsError err), w2, m2)
                       | Some (None, w2, m2) \<Rightarrow>
                           (case (if targetCount booleanOutputs > 0
                                  then trainLogisticModel inputs booleanOutputs w2 cfg
                                  else Some (None, w2)) of
                              None \<Rightarrow> None
                            | Some (Some err, w3) \<Rightarrow> Some (Some (BooleanTargetsError err), w3, m2)
                            | Some (None, w3) \<Rightarrow> Some (None, w3, m2))))))"

section \<open>model.go: dispatch\<close>

definition Model_Predict :: "fmtlib \<Rightarrow> Model \<Rightarrow> gomap \<Rightarrow> Weights \<Rightarrow> error + gomap" where
  "Model_Predict fmt m input w =
     (if Type m = ''linear'' then predictLinearModel input w
      else if Type m = ''logistic'' then predictLogisticModel input w
      else if Type m = ''categorical'' then predictCategoricalModel fmt input w m
      else if Type m = ''mixed'' then predictMixedModel fmt input w m
      else Inl ErrUnsupportedModelType)"

definition Model_Train ::
  "fmtlib \<Rightarrow> Model \<Rightarrow> gomap list \<Rightarrow> gomap list \<Rightarrow> Weights \<Rightarrow> Config option \<Rightarrow>
   (error option \<times> Weights \<times> Model) option" where
  "Model_Train fmt m inputs outputs w cfg =
     (if Type m = ''linear'' then
        map_option (\<lambda>(err, w'). (err, w', m)) (trainLinearModel inputs outputs w cfg)
      else if Type m = ''logistic'' then
        map_option (\<lambda>(err, w'). (err, w', m)) (trainLogisticModel inputs outputs w cfg)
      else if Type m = ''categorical'' then trainCategoricalModel fmt inputs outputs w cfg m
      else if Type m = ''mixed'' then trainMixedModel fmt inputs outputs w cfg m
      else Some (Some ErrUnsupportedModelType, w, m))"

section \<open>engine.go\<close>

text \<open>
  The engine methods mutate the engine; the model returns the engine after the call next to
  the result. The \<^verbatim>\<open>fmt.Errorf\<close> texts are named after the error taxonomy of the
  specification: "model not initialized" is \<open>ModelNotInitialized\<close>, "number of input samples
  (%d) must match number of output samples (%d)" is \<open>ShapeMismatch\<close>, "no training data
  provided" is \<open>EmptyTrainingSet\<close>, "weights not initialized, model not trained" is
  \<open>WeightsNotInitialized\<close>, "no output data provided" is \<open>NoOutputData\<close>.
\<close>

definition New :: Engine where
  "New = \<lparr>model = None, weights = None, config = Some DefaultConfig\<rparr>"

definition NewAuto :: "gomap \<Rightarrow> Engine" where
  "NewAuto outputSample =
     \<lparr>model = Some (NewAutoModel outputSample), weights = None, config = Some DefaultConfig\<rparr>"

definition WithConfig :: "Engine \<Rightarrow> Config option \<Rightarrow> Engine" where
  "WithConfig e cfg = e\<lparr>config := cfg\<rparr>"

definition Engine_Train ::
  "fmtlib \<Rightarrow> Engine \<Rightarrow> gomap list \<Rightarrow> gomap list \<Rightarrow> (error option \<times> Engine) option" where
  "Engine_Train fmt e inputs outputs =
     (case model e of
        None \<Rightarrow> Some (Some ModelNotInitialized, e)
      | Some m \<Rightarrow>
          if length inputs \<noteq> length outputs then
            Some (Some (ShapeMismatch (length inputs) (length outputs)), e)
          else if length inputs = 0 then Some (Some EmptyTrainingSet, e)
          else
            (let w = (case weights e of None \<Rightarrow> \<lparr>Values = Some []\<rparr> | Some w \<Rightarrow> w)
             in case Model_Train fmt m inputs outputs w (config e) of
                  None \<Rightarrow> None
                | Some (err, w', m') \<Rightarrow> Some (err, e\<lparr>model := Some m', weights := Some w'\<rparr>)))"

definition Engine_Predict :: "fmtlib \<Rightarrow> Engine \<Rightarrow> gomap \<Rightarrow> error + gomap" where
  "Engine_Predict fmt e input =
     (case model e of
        None \<Rightarrow> Inl ModelNotInitialized
      | Some m \<Rightarrow>
          (case weights e of
             None \<Rightarrow> Inl WeightsNotInitialized
           | Some w \<Rightarrow> Model_Predict fmt m input w))"

definition TrainAuto :: "fmtlib \<Rightarrow> gomap list \<Rightarrow> gomap list \<Rightarrow> (error + Engine) option" where
  "TrainAuto fmt inputs outputs =
     (case outputs of
        [] \<Rightarrow> Some (Inl NoOutputData)
      | output0 # _ \<Rightarrow>
          (case Engine_Train fmt (NewAuto output0) inputs outputs of
             None \<Rightarrow> None
           | Some (Some err, e) \<Rightarrow> Some (Inl (TrainingError err))
           | Some (None, e) \<Rightarrow> Some (Inr e)))"

section \<open>Auxiliary notions for the proofs\<close>

text \<open>A probability map: the values add up to 1 within \<open>10\<^sup>-\<^sup>6\<close> and lie between 0 and 1.\<close>

definition distribution :: "(string \<times> real) list \<Rightarrow> bool" where
  "distribution ps = (\<bar>sum_list (map snd ps) - 1\<bar> \<le> 1 / 10 ^ 6 \<and> list_all (\<lambda>(c, p). 0 \<le> p \<and> p \<le> 1) ps)"

text \<open>Every probability map stored in a result record is a distribution.\<close>

definition probsOk :: "gomap \<Rightarrow> bool" where
  "probsOk result = (\<forall>k ps. map_of result k = Some (VProbs ps) \<longrightarrow> distribution ps)"




text \<open>
  Where a field of a mixed prediction comes from: the linear predictor for a target recorded
  as numeric, the logistic predictor thresholded at 0.5 for one recorded as boolean, the
  categorical predictor for one recorded as categorical, or the \<^verbatim>\<open>_probs\<close> sibling of such a
  categorical target.
\<close>

definition mixedField :: "Model \<Rightarrow> gomap \<Rightarrow> gomap \<Rightarrow> gomap \<Rightarrow> string \<Rightarrow> val \<Rightarrow> bool" where
  "mixedField m linearPred catPred logPred k v =
     ((lookup (Targets m) k = Some (VString ''numeric'') \<and> map_of linearPred k = Some v)
    \<or> (lookup (Targets m) k = Some (VString ''boolean'') \<and>
         (\<exists>prob. map_of logPred k = Some (VFloat64 prob) \<and> v = VBool (prob \<ge> 1 / 2)))
    \<or> (lookup (Targets m) k = Some (VString ''categorical'') \<and> map_of catPred k = Some v)
    \<or> (\<exists>t. k = t @ ''_probs'' \<and> lookup (Targets m) t = Some (VString ''categorical'') \<and>
              map_of catPred t \<noteq> None \<and> map_of catPred k = Some v))"

definition mixedOk :: "Model \<Rightarrow> gomap \<Rightarrow> gomap \<Rightarrow> gomap \<Rightarrow> gomap \<Rightarrow> bool" where
  "mixedOk m linearPred catPred logPred result =
     (\<forall>k v. map_of result k = Some v \<longrightarrow> mixedField m linearPred catPred logPred k v)"

text \<open>Every (target, label, index) entry of the first category map is an entry of the second.\<close>

definition catsGrow :: "catmap \<Rightarrow> catmap \<Rightarrow> bool" where
  "catsGrow cats cats' =
     (\<forall>target cs label idx. map_of cats target = Some cs \<and> map_of cs label = Some idx \<longrightarrow>
        (\<exists>cs'. map_of cats' target = Some cs' \<and> map_of cs' label = Some idx))"




section \<open>The guards of the engine\<close>

text \<open>
  C1: \<^verbatim>\<open>Train\<close> returns ModelNotInitialized when the engine has no model; otherwise
  ShapeMismatch when the numbers of inputs and outputs differ; otherwise EmptyTrainingSet when
  there are none. \<^verbatim>\<open>Predict\<close> returns ModelNotInitialized when the engine has no model, and
  WeightsNotInitialized when it has a model and no weights. The engine is left as it was.
\<close>

theorem engine_guards:
  "(model e = None \<longrightarrow> Engine_Train fmt e inputs outputs = Some (Some ModelNotInitialized, e))
   \<and> (model e \<noteq> None \<and> length inputs \<noteq> length outputs \<longrightarrow>
        Engine_Train fmt e inputs outputs = Some (Some (ShapeMismatch (length inputs) (length outputs)), e))
   \<and> (model e \<noteq> None \<and> length inputs = length outputs \<and> inputs = [] \<longrightarrow>
        Engine_Train fmt e inputs outputs = Some (Some EmptyTrainingSet, e))
   \<and> (model e = None \<longrightarrow> Engine_Predict fmt e input = Inl ModelNotInitialized)
   \<and> (model e \<noteq> None \<and> weights e = None \<longrightarrow> Engine_Predict fmt e input = Inl WeightsNotInitialized)"
  by (auto simp: Engine_Train_def Engine_Predict_def split: option.splits)

theorem engine_guards_witness:
  "Engine_Train decimalFmt New [[(''x'', VInt 1)]] [[(''y'', VInt 1)]] = Some (Some ModelNotInitialized, New)
   \<and> Engine_Predict decimalFmt New [(''x'', VInt 3)] = Inl ModelNotInitialized
   \<and> Engine_Train decimalFmt (NewAuto [(''y'', VInt 2)]) [[(''x'', VInt 1)], [(''x'', VInt 2)]] [[(''y'', VInt 1)]]
       = Some (Some (ShapeMismatch 2 1), NewAuto [(''y'', VInt 2)])
   \<and> Engine_Train decimalFmt (NewAuto [(''y'', VInt 2)]) [] [] = Some (Some EmptyTrainingSet, NewAuto [(''y'', VInt 2)])
   \<and> Engine_Predict decimalFmt (NewAuto [(''y'', VInt 2)]) [(''x'', VInt 1)] = Inl WeightsNotInitialized"
proof -
  have n: "model New = None" by (simp add: New_def)
  have a: "model (NewAuto [(''y'', VInt 2)]) \<noteq> None" "weights (NewAuto [(''y'', VInt 2)]) = None"
    by (simp_all add: NewAuto_def)
  have l: "length [[(''x'', VInt 1)], [(''x'', VInt 2)]] \<noteq> length [[(''y'', VInt 1)]]" by simp
  from engine_guards[of New decimalFmt "[[(''x'', VInt 1)]]" "[[(''y'', VInt 1)]]" "[(''x'', VInt 3)]"] n
  have 1: "Engine_Train decimalFmt New [[(''x'', VInt 1)]] [[(''y'', VInt 1)]] = Some (Some ModelNotInitialized, New)"
    and 2: "Engine_Predict decimalFmt New [(''x'', VInt 3)] = Inl ModelNotInitialized"
    by blast+
  from engine_guards[of "NewAuto [(''y'', VInt 2)]" decimalFmt "[[(''x'', VInt 1)], [(''x'', VInt 2)]]" "[[(''y'', VInt 1)]]" "[(''x'', VInt 1)]"] a l
  have 3: "Engine_Train decimalFmt (NewAuto [(''y'', VInt 2)]) [[(''x'', VInt 1)], [(''x'', VInt 2)]] [[(''y'', VInt 1)]]
       = Some (Some (ShapeMismatch (length [[(''x'', VInt 1)], [(''x'', VInt 2)]]) (length [[(''y'', VInt 1)]])), NewAuto [(''y'', VInt 2)])"
    and 5: "Engine_Predict decimalFmt (NewAuto [(''y'', VInt 2)]) [(''x'', VInt 1)] = Inl WeightsNotInitialized"
    by blast+
  from engine_guards[of "NewAuto [(''y'', VInt 2)]" decimalFmt "[]" "[]" "[]"] a
  have 4: "Engine_Train decimalFmt (NewAuto [(''y'', VInt 2)]) [] [] = Some (Some EmptyTrainingSet, NewAuto [(''y'', VInt 2)])"
    by simp
  from 1 2 3 4 5 show ?thesis by simp
qed

section \<open>Automatic selection\<close>





text \<open>
  C3, as stated, fails at its first sample: \<^verbatim>\<open>{"v": 1.0}\<close> holds a float64 equal to 1, the
  second loop of \<^verbatim>\<open>NewAutoModel\<close> leaves \<^verbatim>\<open>isLogistic\<close> set, and the engine gets the logistic
  model, not the linear one.
\<close>

theorem createAuto_one_is_logistic:
  "map_option Type (model (NewAuto [(''v'', VFloat64 1)])) = Some ''logistic''"
  by (simp add: NewAuto_def NewAutoModel_def NewLogisticModel_def)

text \<open>
  C3, amended: \<^verbatim>\<open>{"v": 1.0}\<close> selects logistic (as every sample of 0-or-1 numbers does),
  \<^verbatim>\<open>{"v": true}\<close> logistic, \<^verbatim>\<open>{"v": "red"}\<close> categorical and \<^verbatim>\<open>{"v": "red", "n": 1.0}\<close> mixed; a
  number other than 0 and 1, as in \<^verbatim>\<open>{"v": 2.5}\<close>, selects linear.
\<close>

theorem createAuto_samples:
  "map_option Type (model (NewAuto [(''v'', VFloat64 1)])) = Some ''logistic'' \<and>
   map_option Type (model (NewAuto [(''v'', VBool True)])) = Some ''logistic'' \<and>
   map_option Type (model (NewAuto [(''v'', VString ''red'')])) = Some ''categorical'' \<and>
   map_option Type (model (NewAuto [(''v'', VString ''red''), (''n'', VFloat64 1)])) = Some ''mixed'' \<and>
   map_option Type (model (NewAuto [(''v'', VFloat64 (5 / 2))])) = Some ''linear''"
  by (simp add: NewAuto_def NewAutoModel_def NewLogisticModel_def NewLinearModel_def
      NewMixedModel_def NewCategoricalModel_def)

section \<open>Association lists as Go maps\<close>

lemma update_fresh: "k \<notin> fst ` set al \<Longrightarrow> AList.update k v al = al @ [(k, v)]"
  by (induction al) auto

lemma fold_update_distinct:
  "distinct (map fst xs) \<Longrightarrow> fst ` set acc \<inter> fst ` set xs = {} \<Longrightarrow>
   fold (\<lambda>(k, v) m. AList.update k (f k v) m) xs acc = acc @ map (\<lambda>(k, v). (k, f k v)) xs"
proof (induction xs arbitrary: acc)
  case Nil
  then show ?case by simp
next
  case (Cons x xs)
  obtain k v where x: "x = (k, v)" by (cases x)
  from Cons.prems have fresh: "k \<notin> fst ` set acc" by (auto simp: x)
  have "fst ` set (acc @ [(k, f k v)]) \<inter> fst ` set xs = {}"
    using Cons.prems by (auto simp: x)
  with Cons.prems Cons.IH[of "acc @ [(k, f k v)]"] show ?case
    by (simp add: x update_fresh[OF fresh])
qed

lemma fold_update_keys_distinct:
  "distinct (map fst acc) \<Longrightarrow> distinct (map fst (fold (\<lambda>(k, v) m. AList.update k (f k v) m) xs acc))"
  by (induction xs arbitrary: acc) (auto simp: distinct_update)

lemma fold_update_keeps_nonempty:
  "acc \<noteq> [] \<Longrightarrow> fold (\<lambda>(k, v) m. AList.update k (f k v) m) xs acc \<noteq> []"
proof (induction xs arbitrary: acc)
  case Nil
  then show ?case by simp
next
  case (Cons x xs)
  have "AList.update (fst x) (f (fst x) (snd x)) acc \<noteq> []" by (rule update_nonempty)
  from Cons.IH[OF this] show ?case by (simp add: case_prod_unfold)
qed

lemma fold_update_nonempty:
  assumes "xs \<noteq> []"
  shows "fold (\<lambda>(k, v) m. AList.update k (f k v) m) xs [] \<noteq> []"
proof -
  obtain x xs' where xs: "xs = x # xs'" using assms by (cases xs) auto
  have "AList.update (fst x) (f (fst x) (snd x)) [] \<noteq> []" by (rule update_nonempty)
  from fold_update_keeps_nonempty[OF this, of f xs'] show ?thesis
    by (simp add: xs case_prod_unfold)
qed
lemma categoryScores_distinct: "distinct (map fst (categoryScores input w target categories))"
  unfolding categoryScores_def
  using fold_update_keys_distinct[of "[]" "\<lambda>k v. weightedSum input w (target @ '':'' @ k)" categories]
  by simp

lemma categoryScores_nonempty: "categories \<noteq> [] \<Longrightarrow> categoryScores input w target categories \<noteq> []"
  unfolding categoryScores_def
  using fold_update_nonempty[of categories "\<lambda>k v. weightedSum input w (target @ '':'' @ k)"]
  by simp

section \<open>Softmax and the categorical predictor\<close>

lemma exp_fold:
  "distinct (map fst xs) \<Longrightarrow> fst ` set acc \<inter> fst ` set xs = {} \<Longrightarrow>
   fold (\<lambda>(category, score) (expScores, sumExp).
                      let expScore = exp (score - mx)
                      in (AList.update category expScore expScores, sumExp + expScore)) xs (acc, a)
   = (acc @ map (\<lambda>(k, s). (k, exp (s - mx))) xs, a + sum_list (map (\<lambda>(k, s). exp (s - mx)) xs))"
proof (induction xs arbitrary: acc a)
  case Nil
  then show ?case by simp
next
  case (Cons x xs)
  obtain k v where x: "x = (k, v)" by (cases x)
  from Cons.prems have fresh: "k \<notin> fst ` set acc" by (auto simp: x)
  have "fst ` set (acc @ [(k, exp (v - mx))]) \<inter> fst ` set xs = {}"
    using Cons.prems by (auto simp: x)
  with Cons.prems Cons.IH[of "acc @ [(k, exp (v - mx))]"] show ?case
    by (simp add: x update_fresh[OF fresh] Let_def add.assoc)
qed

lemma softmaxExp_closed:
  assumes "distinct (map fst scores)"
  shows "softmaxExp mx scores =
    (map (\<lambda>(k, s). (k, exp (s - mx))) scores, sum_list (map (\<lambda>(k, s). exp (s - mx)) scores))"
  unfolding softmaxExp_def using exp_fold[OF assms, of "[]" mx 0] by simp

lemma softmax_closed:
  assumes "distinct (map fst scores)"
  shows "softmax scores =
     map (\<lambda>(k, s). (k, exp (s - softmaxMax scores) / sum_list (map (\<lambda>(k, s). exp (s - softmaxMax scores)) scores))) scores"
proof -
  let ?mx = "softmaxMax scores"
  let ?S = "sum_list (map (\<lambda>(k, s). exp (s - ?mx)) scores)"
  let ?E = "map (\<lambda>(k, s). (k, exp (s - ?mx))) scores"
  have dE: "distinct (map fst ?E)" using assms by (simp add: case_prod_unfold comp_def)
  have "fold (\<lambda>(category, expScore) probabilities. AList.update category (expScore / ?S) probabilities) ?E []
        = map (\<lambda>(k, e). (k, e / ?S)) ?E"
    using fold_update_distinct[OF dE, of "[]" "\<lambda>k e. e / ?S"] by simp
  then show ?thesis
    by (simp add: softmax_def Let_def softmaxExp_closed[OF assms] case_prod_unfold comp_def)
qed

lemma sum_list_div: "sum_list (map (\<lambda>x. f x / (c::real)) xs) = sum_list (map f xs) / c"
  by (induction xs) (auto simp: add_divide_distrib)

lemma member_le_sum_list:
  assumes "\<And>y. y \<in> set xs \<Longrightarrow> 0 \<le> f y" and "x \<in> set xs"
  shows "f x \<le> (sum_list (map f xs) :: real)"
  using assms
proof (induction xs)
  case Nil
  then show ?case by simp
next
  case (Cons a xs)
  have nn: "0 \<le> sum_list (map f xs)"
    by (rule sum_list_nonneg) (use Cons.prems(1) in auto)
  show ?case
  proof (cases "x = a")
    case True
    then show ?thesis using nn by simp
  next
    case False
    then have "x \<in> set xs" using Cons.prems(2) by simp
    then have "f x \<le> sum_list (map f xs)" using Cons.IH Cons.prems(1) by simp
    moreover have "0 \<le> f a" using Cons.prems(1) by simp
    ultimately show ?thesis by simp
  qed
qed

lemma softmax_distribution:
  assumes d: "distinct (map fst scores)" and ne: "scores \<noteq> []"
  shows "sum_list (map snd (softmax scores)) = 1"
    and "\<forall>(c, p) \<in> set (softmax scores). 0 \<le> p \<and> p \<le> 1"
proof -
  let ?mx = "softmaxMax scores"
  let ?f = "\<lambda>x. exp (snd x - ?mx)"
  let ?S = "sum_list (map ?f scores)"
  have pos: "0 < ?S" using ne by (cases scores) (auto intro!: add_pos_nonneg sum_list_nonneg)
  have sm: "softmax scores = map (\<lambda>x. (fst x, ?f x / ?S)) scores"
    using softmax_closed[OF d] by (simp add: case_prod_unfold)
  show "sum_list (map snd (softmax scores)) = 1"
    using pos by (simp add: sm comp_def sum_list_div)
  show "\<forall>(c, p) \<in> set (softmax scores). 0 \<le> p \<and> p \<le> 1"
  proof -
    have "0 \<le> ?f x / ?S \<and> ?f x / ?S \<le> 1" if "x \<in> set scores" for x
    proof -
      have "?f x \<le> ?S" by (rule member_le_sum_list[OF _ that]) simp
      then show ?thesis using pos by simp
    qed
    then show ?thesis by (auto simp: sm)
  qed
qed


lemma softmax_keys: "distinct (map fst scores) \<Longrightarrow> map fst (softmax scores) = map fst scores"
  by (simp add: softmax_closed case_prod_unfold comp_def)

lemma softmax_is_distribution:
  assumes "distinct (map fst scores)" and "scores \<noteq> []"
  shows "distribution (softmax scores)"
  using softmax_distribution[OF assms]
  by (simp add: distribution_def list_all_iff)

lemma probsMap_copy:
  assumes "distinct (map fst ps)"
  shows "fold (\<lambda>(cat, prob) probsMap. AList.update cat prob probsMap) ps [] = ps"
  using fold_update_distinct[OF assms, of "[]" "\<lambda>k v. v"] by (simp add: case_prod_unfold)

lemma reparseCategory_not_probs: "reparseCategory fmt b \<noteq> VProbs ps"
  by (simp add: reparseCategory_def split: option.splits)

lemma probsOk_update_other: "probsOk result \<Longrightarrow> (\<And>ps. v \<noteq> VProbs ps) \<Longrightarrow> probsOk (AList.update k v result)"
  by (simp add: probsOk_def update_conv')

lemma probsOk_update_probs: "probsOk result \<Longrightarrow> distribution ps \<Longrightarrow> probsOk (AList.update k (VProbs ps) result)"
  by (simp add: probsOk_def update_conv')

lemma predictCategoricalTarget_probsOk:
  assumes "probsOk result"
  shows "probsOk (predictCategoricalTarget fmt input w target categories result)"
proof (cases "categories = []")
  case True
  then show ?thesis using assms by (simp add: predictCategoricalTarget_def)
next
  case False
  let ?scores = "categoryScores input w target categories"
  have d: "distinct (map fst ?scores)" by (rule categoryScores_distinct)
  have ne: "?scores \<noteq> []" using False by (rule categoryScores_nonempty)
  have dp: "distinct (map fst (softmax ?scores))" using d by (simp add: softmax_keys)
  have dist: "distribution (softmax ?scores)" using d ne by (rule softmax_is_distribution)
  have "probsOk (AList.update (target @ ''_probs'') (VProbs (softmax ?scores))
          (AList.update target (reparseCategory fmt (fst (bestOf (softmax ?scores)))) result))"
    by (intro probsOk_update_probs probsOk_update_other assms dist reparseCategory_not_probs)
  then show ?thesis
    using assms False by (simp add: predictCategoricalTarget_def Let_def probsMap_copy[OF dp])
qed

lemma predictCategorical_fold_probsOk:
  "probsOk result \<Longrightarrow>
   probsOk (fold (\<lambda>(target, categories) result. predictCategoricalTarget fmt input w target categories result) cs result)"
proof (induction cs arbitrary: result)
  case Nil
  then show ?case by simp
next
  case (Cons c cs)
  have "probsOk (predictCategoricalTarget fmt input w (fst c) (snd c) result)"
    using Cons.prems by (rule predictCategoricalTarget_probsOk)
  from Cons.IH[OF this] show ?case by (simp add: case_prod_unfold)
qed

text \<open>
  C7: in the record returned by the categorical predictor, the probability map stored under
  \<^verbatim>\<open>"<target>_probs"\<close> adds up to 1 within \<open>10\<^sup>-\<^sup>6\<close> and each of its values lies between 0
  and 1. (Over the reals the sum is exactly 1.)
\<close>

theorem categorical_probs_distribution:
  assumes "predictCategoricalModel fmt input w m = Inr result"
    and "map_of result (target @ ''_probs'') = Some (VProbs ps)"
  shows "\<bar>sum_list (map snd ps) - 1\<bar> \<le> 1 / 10 ^ 6 \<and> list_all (\<lambda>(c, p). 0 \<le> p \<and> p \<le> 1) ps"
proof -
  have "probsOk []" by (simp add: probsOk_def)
  then have "probsOk result"
    using assms(1) predictCategorical_fold_probsOk[of "[]" fmt input w "entries (Categories m)"]
    by (simp add: predictCategoricalModel_def)
  then show ?thesis using assms(2) by (simp add: probsOk_def distribution_def)
qed

lemma MaxFloat64_pos: "0 < MaxFloat64"
proof -
  have "(1::real) / 2 ^ 52 < 2" by (simp add: field_simps)
  then show ?thesis by (simp add: MaxFloat64_def)
qed

lemma reparse_red: "reparseCategory decimalFmt ''red'' = VString ''red''"
  by (simp add: reparseCategory_def isNumeric_def stringToFloat64_def stringToInt_def decimalFmt_def
      scanDecimalFloat_def scanDecimalInt_def unsign_def isDigit_def)

lemma witness_predict:
  "predictCategoricalModel decimalFmt [] \<lparr>Values = Some []\<rparr>
       (NewCategoricalModel\<lparr>Categories := Some [(''color'', [(''red'', 0), (''blue'', 1)])]\<rparr>)
     = Inr [(''color'', VString ''red''), (''color_probs'', VProbs [(''red'', 1 / 2), (''blue'', 1 / 2)])]"
  using MaxFloat64_pos
  by (simp add: predictCategoricalModel_def predictCategoricalTarget_def entries_def categoryScores_def
      weightedSum_def GetFloat_def lookup_def softmax_def softmaxMax_def softmaxExp_def bestOf_def
      reparse_red Let_def NewCategoricalModel_def)

theorem categorical_probs_distribution_witness:
  "predictCategoricalModel decimalFmt [] \<lparr>Values = Some []\<rparr>
       (NewCategoricalModel\<lparr>Categories := Some [(''color'', [(''red'', 0), (''blue'', 1)])]\<rparr>)
     = Inr [(''color'', VString ''red''), (''color_probs'', VProbs [(''red'', 1 / 2), (''blue'', 1 / 2)])]
   \<and> map_of [(''color'', VString ''red''), (''color_probs'', VProbs [(''red'', 1 / 2), (''blue'', 1 / 2)])]
        (''color'' @ ''_probs'') = Some (VProbs [(''red'', 1 / 2), (''blue'', 1 / 2)])
   \<and> \<bar>sum_list (map snd [(''red'', 1 / 2 :: real), (''blue'', 1 / 2)]) - 1\<bar> \<le> 1 / 10 ^ 6
   \<and> list_all (\<lambda>(c, p). 0 \<le> p \<and> p \<le> 1) [(''red'', 1 / 2 :: real), (''blue'', 1 / 2)]"
proof -
  have h2: "map_of [(''color'', VString ''red''), (''color_probs'', VProbs [(''red'', 1 / 2), (''blue'', 1 / 2)])]
        (''color'' @ ''_probs'') = Some (VProbs [(''red'', 1 / 2), (''blue'', 1 / 2)])" by simp
  from categorical_probs_distribution[OF witness_predict h2] witness_predict h2
  show ?thesis by blast
qed

section \<open>The mixed predictor\<close>

lemma fold_invariant:
  assumes "I r0" and "\<And>x r. x \<in> set xs \<Longrightarrow> I r \<Longrightarrow> I (f x r)"
  shows "I (fold f xs r0)"
  using assms by (induction xs arbitrary: r0) simp_all

lemma set_alist_update: "set (AList.update k v al) \<subseteq> insert (k, v) (set al)"
  by (induction al) auto

lemma distinct_map_of: "distinct (map fst al) \<Longrightarrow> (k, v) \<in> set al \<Longrightarrow> map_of al k = Some v"
  by simp

lemma predictLinearModel_distinct: "predictLinearModel input w = Inr lp \<Longrightarrow> distinct (map fst lp)"
  unfolding predictLinearModel_def
  using fold_update_keys_distinct[of "[]" "\<lambda>t b. VFloat64 (weightedSum input w t)" "weightTargets w"]
  by auto

lemma predictLogisticModel_distinct: "predictLogisticModel input w = Inr lg \<Longrightarrow> distinct (map fst lg)"
  unfolding predictLogisticModel_def
  using fold_update_keys_distinct[of "[]" "\<lambda>t b. VFloat64 (sigmoid (weightedSum input w t))" "weightTargets w"]
  by auto

lemma predictLogisticModel_floats:
  assumes "predictLogisticModel input w = Inr lg" and "(k, v) \<in> set lg"
  shows "\<exists>p. v = VFloat64 p"
proof -
  let ?I = "\<lambda>r::gomap. \<forall>(k, v) \<in> set r. \<exists>p. v = VFloat64 p"
  have "?I (fold (\<lambda>(target, b) result.
                  AList.update target (VFloat64 (sigmoid (weightedSum input w target))) result)
            (weightTargets w) [])"
  proof (rule fold_invariant[where I = ?I])
    show "?I []" by simp
  next
    fix x and r :: gomap
    assume r: "?I r"
    have "set (AList.update (fst x) (VFloat64 (sigmoid (weightedSum input w (fst x)))) r)
          \<subseteq> insert (fst x, VFloat64 (sigmoid (weightedSum input w (fst x)))) (set r)"
      by (rule set_alist_update)
    with r show "?I ((\<lambda>(target, b) result.
                  AList.update target (VFloat64 (sigmoid (weightedSum input w target))) result) x r)"
      by (auto simp: case_prod_unfold)
  qed
  with assms show ?thesis by (auto simp: predictLogisticModel_def)
qed

lemma predictCategoricalTarget_distinct:
  "distinct (map fst r) \<Longrightarrow> distinct (map fst (predictCategoricalTarget fmt input w t cs r))"
  by (simp add: predictCategoricalTarget_def Let_def distinct_update)

lemma predictCategoricalModel_distinct:
  assumes "predictCategoricalModel fmt input w m = Inr cp"
  shows "distinct (map fst cp)"
proof -
  have "distinct (map fst (fold (\<lambda>(target, categories) result.
           predictCategoricalTarget fmt input w target categories result) (entries (Categories m)) []))"
    by (rule fold_invariant[where I = "\<lambda>r. distinct (map fst r)"])
       (simp_all add: case_prod_unfold predictCategoricalTarget_distinct)
  with assms show ?thesis by (auto simp: predictCategoricalModel_def)
qed


lemma mixedOk_update:
  "mixedOk m lp cp lg r \<Longrightarrow> mixedField m lp cp lg k v \<Longrightarrow> mixedOk m lp cp lg (AList.update k v r)"
  by (simp add: mixedOk_def update_conv')

lemma mixedLinearPart_ok:
  assumes d: "distinct (map fst lp)" and r: "mixedOk m lp cp lg r"
  shows "mixedOk m lp cp lg (mixedLinearPart m lp r)"
  unfolding mixedLinearPart_def
proof (rule fold_invariant[where I = "mixedOk m lp cp lg", OF r])
  fix x and r' :: gomap
  assume x: "x \<in> set lp" and r': "mixedOk m lp cp lg r'"
  obtain k v where kv: "x = (k, v)" by (cases x)
  have look: "map_of lp k = Some v" using d x by (simp add: kv)
  show "mixedOk m lp cp lg ((\<lambda>(k, v) result.
             if lookup (Targets m) k = Some (VString ''numeric'') then AList.update k v result
             else result) x r')"
    using r' look by (simp add: kv mixedOk_update mixedField_def)
qed

lemma mixedCategoricalPart_ok:
  assumes d: "distinct (map fst cp)" and r: "mixedOk m lp cp lg r"
  shows "mixedOk m lp cp lg (mixedCategoricalPart m cp r)"
  unfolding mixedCategoricalPart_def
proof (rule fold_invariant[where I = "mixedOk m lp cp lg", OF r])
  fix x and r' :: gomap
  assume x: "x \<in> set cp" and r': "mixedOk m lp cp lg r'"
  obtain k v where kv: "x = (k, v)" by (cases x)
  have look: "map_of cp k = Some v" using d x by (simp add: kv)
  show "mixedOk m lp cp lg ((\<lambda>(k, v) result.
             if lookup (Targets m) k = Some (VString ''categorical'') then
               (let result = AList.update k v result;
                    probKey = k @ ''_probs''
                in case map_of cp probKey of
                     Some probs \<Rightarrow> AList.update probKey probs result
                   | None \<Rightarrow> result)
             else result) x r')"
  proof (cases "lookup (Targets m) k = Some (VString ''categorical'')")
    case False
    then show ?thesis using r' by (simp add: kv)
  next
    case True
    have f1: "mixedField m lp cp lg k v" using True look by (simp add: mixedField_def)
    have s1: "mixedOk m lp cp lg (AList.update k v r')" using r' f1 by (rule mixedOk_update)
    show ?thesis
    proof (cases "map_of cp (k @ ''_probs'')")
      case None
      then show ?thesis using True s1 by (simp add: kv Let_def)
    next
      case (Some probs)
      have "mixedField m lp cp lg (k @ ''_probs'') probs"
        unfolding mixedField_def using True look Some by blast
      with s1 have "mixedOk m lp cp lg (AList.update (k @ ''_probs'') probs (AList.update k v r'))"
        by (rule mixedOk_update)
      then show ?thesis using True Some by (simp add: kv Let_def)
    qed
  qed
qed

lemma mixedBooleanPart_ok:
  assumes d: "distinct (map fst lg)" and fl: "\<And>k v. (k, v) \<in> set lg \<Longrightarrow> \<exists>p. v = VFloat64 p"
    and r: "mixedOk m lp cp lg r"
  shows "mixedOk m lp cp lg (mixedBooleanPart m lg r)"
  unfolding mixedBooleanPart_def
proof (rule fold_invariant[where I = "mixedOk m lp cp lg", OF r])
  fix x and r' :: gomap
  assume x: "x \<in> set lg" and r': "mixedOk m lp cp lg r'"
  obtain k v where kv: "x = (k, v)" by (cases x)
  obtain p where p: "v = VFloat64 p" using fl x kv by blast
  have look: "map_of lg k = Some (VFloat64 p)" using d x by (simp add: kv p)
  show "mixedOk m lp cp lg ((\<lambda>(k, v) result.
             if lookup (Targets m) k = Some (VString ''boolean'') then
               (case v of
                  VFloat64 prob \<Rightarrow>
                    if prob \<ge> 1 / 2 then AList.update k (VBool True) result
                    else AList.update k (VBool False) result
                | _ \<Rightarrow> AList.update k v result)
             else result) x r')"
  proof (cases "lookup (Targets m) k = Some (VString ''boolean'')")
    case False
    then show ?thesis using r' by (simp add: kv)
  next
    case True
    have "mixedField m lp cp lg k (VBool (p \<ge> 1 / 2))"
      unfolding mixedField_def using True look by blast
    with r' have "mixedOk m lp cp lg (AList.update k (VBool (p \<ge> 1 / 2)) r')"
      by (rule mixedOk_update)
    then show ?thesis using True by (cases "p \<ge> 1 / 2") (simp_all add: kv p)
  qed
qed

text \<open>
  C9: every field of the record returned by the mixed predictor has a recorded target type
  that matches the predictor it comes from: a field recorded as numeric carries the linear
  prediction, a field recorded as boolean carries the logistic probability compared with
  0.5, a field recorded as categorical carries the categorical prediction, and the only
  other fields are the \<^verbatim>\<open>"<target>_probs"\<close> siblings of the categorical targets that the
  categorical predictor returned.
\<close>

theorem mixed_prediction_fields:
  assumes "predictLinearModel input w = Inr linearPred"
    and "predictCategoricalModel fmt input w m = Inr catPred"
    and "predictLogisticModel input w = Inr logPred"
    and "predictMixedModel fmt input w m = Inr result"
    and "map_of result k = Some v"
  shows "(lookup (Targets m) k = Some (VString ''numeric'') \<and> map_of linearPred k = Some v)
    \<or> (lookup (Targets m) k = Some (VString ''boolean'') \<and>
         (\<exists>prob. map_of logPred k = Some (VFloat64 prob) \<and> v = VBool (prob \<ge> 1 / 2)))
    \<or> (lookup (Targets m) k = Some (VString ''categorical'') \<and> map_of catPred k = Some v)
    \<or> (\<exists>t. k = t @ ''_probs'' \<and> lookup (Targets m) t = Some (VString ''categorical'') \<and>
              map_of catPred t \<noteq> None \<and> map_of catPred k = Some v)"
proof -
  have r0: "mixedOk m linearPred catPred logPred []" by (simp add: mixedOk_def)
  have r1: "mixedOk m linearPred catPred logPred (mixedLinearPart m linearPred [])"
    using predictLinearModel_distinct[OF assms(1)] r0 by (rule mixedLinearPart_ok)
  have r2: "mixedOk m linearPred catPred logPred
              (mixedCategoricalPart m catPred (mixedLinearPart m linearPred []))"
    using predictCategoricalModel_distinct[OF assms(2)] r1 by (rule mixedCategoricalPart_ok)
  have r3: "mixedOk m linearPred catPred logPred
              (mixedBooleanPart m logPred (mixedCategoricalPart m catPred (mixedLinearPart m linearPred [])))"
    using predictLogisticModel_distinct[OF assms(3)] predictLogisticModel_floats[OF assms(3)] r2
    by (rule mixedBooleanPart_ok)
  have "result = mixedBooleanPart m logPred (mixedCategoricalPart m catPred (mixedLinearPart m linearPred []))"
    using assms(1-4) by (simp add: predictMixedModel_def Let_def)
  with r3 assms(5) have "mixedField m linearPred catPred logPred k v"
    by (simp add: mixedOk_def)
  then show ?thesis by (simp add: mixedField_def)
qed

lemma sigmoid_zero: "sigmoid 0 = 1 / 2"
  by (simp add: sigmoid_def)

theorem mixed_prediction_fields_witness:
  "predictLinearModel [] \<lparr>Values = Some [(''bias->ok'', VFloat64 0)]\<rparr> = Inr [(''ok'', VFloat64 0)]
   \<and> predictCategoricalModel decimalFmt [] \<lparr>Values = Some [(''bias->ok'', VFloat64 0)]\<rparr>
        (NewMixedModel\<lparr>Targets := Some [(''ok'', VString ''boolean''), (''color'', VString ''categorical'')],
                       Categories := Some [(''color'', [(''red'', 0), (''blue'', 1)])]\<rparr>)
       = Inr [(''color'', VString ''red''), (''color_probs'', VProbs [(''red'', 1 / 2), (''blue'', 1 / 2)])]
   \<and> predictLogisticModel [] \<lparr>Values = Some [(''bias->ok'', VFloat64 0)]\<rparr> = Inr [(''ok'', VFloat64 (1 / 2))]
   \<and> predictMixedModel decimalFmt [] \<lparr>Values = Some [(''bias->ok'', VFloat64 0)]\<rparr>
        (NewMixedModel\<lparr>Targets := Some [(''ok'', VString ''boolean''), (''color'', VString ''categorical'')],
                       Categories := Some [(''color'', [(''red'', 0), (''blue'', 1)])]\<rparr>)
       = Inr [(''color'', VString ''red''), (''color_probs'', VProbs [(''red'', 1 / 2), (''blue'', 1 / 2)]),
              (''ok'', VBool True)]
   \<and> map_of [(''color'', VString ''red''), (''color_probs'', VProbs [(''red'', 1 / 2), (''blue'', 1 / 2)]),
              (''ok'', VBool True)] ''ok'' = Some (VBool True)
   \<and> lookup (Targets (NewMixedModel\<lparr>Targets := Some [(''ok'', VString ''boolean''), (''color'', VString ''categorical'')],
                       Categories := Some [(''color'', [(''red'', 0), (''blue'', 1)])]\<rparr>)) ''ok''
       = Some (VString ''boolean'')"
proof -
  let ?w = "\<lparr>Values = Some [(''bias->ok'', VFloat64 0)]\<rparr>"
  let ?m = "NewMixedModel\<lparr>Targets := Some [(''ok'', VString ''boolean''), (''color'', VString ''categorical'')],
                       Categories := Some [(''color'', [(''red'', 0), (''blue'', 1)])]\<rparr>"
  let ?cp = "[(''color'', VString ''red''), (''color_probs'', VProbs [(''red'', 1 / 2), (''blue'', 1 / 2)])]"
  have wt: "weightTargets ?w = [(''ok'', True)]"
    by (simp add: weightTargets_def entries_def splitWeightKey_def)
  have ws: "weightedSum [] ?w ''ok'' = 0"
    by (simp add: weightedSum_def GetFloat_def lookup_def entries_def)
  have h1: "predictLinearModel [] ?w = Inr [(''ok'', VFloat64 0)]"
    by (simp add: predictLinearModel_def wt ws)
  have h3: "predictLogisticModel [] ?w = Inr [(''ok'', VFloat64 (1 / 2))]"
    by (simp add: predictLogisticModel_def wt ws sigmoid_zero)
  have h2: "predictCategoricalModel decimalFmt [] ?w ?m = Inr ?cp"
    using MaxFloat64_pos
    by (simp add: predictCategoricalModel_def predictCategoricalTarget_def entries_def categoryScores_def
      weightedSum_def GetFloat_def lookup_def softmax_def softmaxMax_def softmaxExp_def bestOf_def
      reparse_red Let_def NewMixedModel_def)
  have h4: "predictMixedModel decimalFmt [] ?w ?m = Inr (?cp @ [(''ok'', VBool True)])"
    unfolding predictMixedModel_def h1 h2 h3
    by (simp add: mixedLinearPart_def mixedCategoricalPart_def mixedBooleanPart_def lookup_def
        entries_def NewMixedModel_def)
  have h5: "map_of (?cp @ [(''ok'', VBool True)]) ''ok'' = Some (VBool True)" by simp
  have h6: "lookup (Targets ?m) ''ok'' = Some (VString ''boolean'')"
    by (simp add: lookup_def entries_def)
  from mixed_prediction_fields[OF h1 h2 h3 h4 h5] h1 h2 h3 h4 h5 h6
  show ?thesis by simp
qed

section \<open>Boolean field values\<close>

text \<open>
  C4 does not hold of the code: \<^verbatim>\<open>ConvertToFloat64\<close> turns \<^verbatim>\<open>true\<close> into 1, but the
  predictors and trainers use their own inline type switch, which sends a boolean to
  \<^verbatim>\<open>default: continue\<close>. With the weight 2 on the feature \<^verbatim>\<open>flag\<close>, the linear prediction for
  \<^verbatim>\<open>{"flag": true}\<close> is 0, not 2.
\<close>

theorem boolean_feature_skipped:
  "ConvertToFloat64 (VBool True) ''flag'' = (1, True) \<and>
   featureSwitch ''flag'' (VBool True) = None \<and>
   actualSwitch (VBool True) = None \<and>
   predictLinearModel [(''flag'', VBool True)]
     \<lparr>Values = Some [(''flag->y'', VFloat64 2), (''bias->y'', VFloat64 0)]\<rparr> = Inr [(''y'', VFloat64 0)]"
  by (simp add: predictLinearModel_def weightTargets_def entries_def splitWeightKey_def
      weightedSum_def GetFloat_def lookup_def)

section \<open>The category map under training\<close>

lemma catsGrow_refl: "catsGrow cats cats"
  by (simp add: catsGrow_def)

lemma catsGrow_trans: "catsGrow a b \<Longrightarrow> catsGrow b c \<Longrightarrow> catsGrow a c"
  unfolding catsGrow_def by blast

lemma assign_indices_keeps:
  "map_of cs label = Some idx \<Longrightarrow>
   map_of (fst (fold (\<lambda>(category, n) (cs, idx).
                      if map_of cs category = None then (AList.update category idx cs, idx + 1)
                      else (cs, idx)) categoryCount (cs, i0 :: int))) label = Some idx"
proof (induction categoryCount arbitrary: cs i0)
  case Nil
  then show ?case by simp
next
  case (Cons x xs)
  obtain category n where x: "x = (category, n)" by (cases x)
  show ?case
  proof (cases "map_of cs category = None")
    case True
    then have "category \<noteq> label" using Cons.prems by auto
    then have "map_of (AList.update category i0 cs) label = Some idx"
      using Cons.prems by (simp add: update_conv')
    from Cons.IH[OF this] show ?thesis using True by (simp add: x)
  next
    case False
    then obtain y where "map_of cs category = Some y" by auto
    then show ?thesis using Cons.IH[OF Cons.prems, of i0] by (simp add: x)
  qed
qed

lemma recordCategories_grows: "catsGrow cats (recordCategories fmt outputs t cats)"
  unfolding catsGrow_def
proof (intro allI impI)
  fix target cs label idx
  assume a: "map_of cats target = Some cs \<and> map_of cs label = Some idx"
  show "\<exists>cs'. map_of (recordCategories fmt outputs t cats) target = Some cs' \<and> map_of cs' label = Some idx"
  proof (cases "target = t")
    case False
    then show ?thesis using a
      by (simp add: recordCategories_def Let_def case_prod_unfold update_conv')
  next
    case True
    then show ?thesis using a assign_indices_keeps[of cs label idx]
      by (simp add: recordCategories_def Let_def case_prod_unfold update_conv')
  qed
qed

lemma recordCategories_fold_grows: "catsGrow cats (fold (recordCategories fmt outputs) targets cats)"
proof (induction targets arbitrary: cats)
  case Nil
  then show ?case by (simp add: catsGrow_refl)
next
  case (Cons t ts)
  have "catsGrow cats (recordCategories fmt outputs t cats)" by (rule recordCategories_grows)
  moreover have "catsGrow (recordCategories fmt outputs t cats)
                   (fold (recordCategories fmt outputs) ts (recordCategories fmt outputs t cats))"
    by (rule Cons.IH)
  ultimately show ?case by (auto intro: catsGrow_trans)
qed

lemma trainCategoricalModel_grows:
  assumes "trainCategoricalModel fmt inputs outputs w cfg m = Some (err, w', m')"
  shows "catsGrow (entries (Categories m)) (entries (Categories m'))"
proof (cases inputs)
  case Nil
  then show ?thesis using assms by (simp add: trainCategoricalModel_def catsGrow_refl)
next
  case (Cons input0 ins)
  show ?thesis
  proof (cases outputs)
    case Nil
    then show ?thesis using assms Cons by (simp add: trainCategoricalModel_def catsGrow_refl)
  next
    case (Cons output0 outs)
    then have "Categories m' = Some (fold (recordCategories fmt outputs) (map fst output0) (entries (Categories m)))"
      using assms \<open>inputs = input0 # ins\<close>
      by (auto simp: trainCategoricalModel_def Let_def split: option.splits)
    then show ?thesis by (simp add: entries_def recordCategories_fold_grows)
  qed
qed

lemma trainMixedModel_grows:
  assumes "trainMixedModel fmt inputs outputs w cfg m = Some (err, w', m')"
  shows "catsGrow (entries (Categories m)) (entries (Categories m'))"
proof (cases outputs)
  case Nil
  then show ?thesis using assms by (simp add: trainMixedModel_def catsGrow_refl)
next
  case (Cons output0 outs)
  from assms Cons obtain tm no co bo where
    split: "forEach output0 (splitField outputs)
                  (Targets m, replicate (length outputs) [], replicate (length outputs) [],
                   replicate (length outputs) []) = Some (tm, no, co, bo)"
    by (auto simp: trainMixedModel_def split: option.splits)
  let ?m1 = "m\<lparr>Targets := tm\<rparr>"
  have m1: "Categories ?m1 = Categories m" by simp
  from assms Cons split have
    "m' = ?m1 \<or> (\<exists>e w1 w2. trainCategoricalModel fmt inputs co w1 cfg ?m1 = Some (e, w2, m'))"
    by (auto simp: trainMixedModel_def Let_def split: option.splits if_splits)
  then show ?thesis
  proof
    assume "m' = ?m1"
    then show ?thesis by (simp add: catsGrow_refl)
  next
    assume "\<exists>e w1 w2. trainCategoricalModel fmt inputs co w1 cfg ?m1 = Some (e, w2, m')"
    then obtain e w1 w2 where "trainCategoricalModel fmt inputs co w1 cfg ?m1 = Some (e, w2, m')"
      by blast
    from trainCategoricalModel_grows[OF this] show ?thesis by simp
  qed
qed

text \<open>
  C8: a call of the categorical or of the mixed trainer that returns leaves every entry
  (target, label, index) of the category map of the model in place, with the same index.
  By transitivity the same holds across any number of calls.
\<close>

theorem categories_only_grow:
  assumes "trainCategoricalModel fmt inputs outputs w cfg m = Some (err, w', m')
           \<or> trainMixedModel fmt inputs outputs w cfg m = Some (err, w', m')"
    and "lookup (Categories m) target = Some cs"
    and "map_of cs label = Some idx"
  shows "\<exists>cs'. lookup (Categories m') target = Some cs' \<and> map_of cs' label = Some idx"
proof -
  have "catsGrow (entries (Categories m)) (entries (Categories m'))"
    using assms(1) trainCategoricalModel_grows trainMixedModel_grows by blast
  then show ?thesis using assms(2,3) unfolding catsGrow_def lookup_def by blast
qed

lemma train_blue_after_red:
  "trainCategoricalModel decimalFmt [[(''x'', VFloat64 1)]] [[(''color'', VString ''blue'')]]
      \<lparr>Values = Some []\<rparr> (Some (DefaultConfig\<lparr>Epochs := 0\<rparr>))
      (NewCategoricalModel\<lparr>Categories := Some [(''color'', [(''red'', 0)])]\<rparr>)
   = Some (None,
       \<lparr>Values = Some [(''x->color:red'', VFloat64 0), (''bias->color:red'', VFloat64 0),
                       (''x->color:blue'', VFloat64 0), (''bias->color:blue'', VFloat64 0)]\<rparr>,
       NewCategoricalModel\<lparr>Categories := Some [(''color'', [(''red'', 0), (''blue'', 0)])]\<rparr>)"
  by (simp add: trainCategoricalModel_def recordCategories_def entries_def sprintV_def
      trainCategoricalTarget_def ensureWeight_def Get_def Set_def lookup_def Let_def NewCategoricalModel_def)

theorem categories_only_grow_witness:
  "trainCategoricalModel decimalFmt [[(''x'', VFloat64 1)]] [[(''color'', VString ''blue'')]]
      \<lparr>Values = Some []\<rparr> (Some (DefaultConfig\<lparr>Epochs := 0\<rparr>))
      (NewCategoricalModel\<lparr>Categories := Some [(''color'', [(''red'', 0)])]\<rparr>)
   = Some (None,
       \<lparr>Values = Some [(''x->color:red'', VFloat64 0), (''bias->color:red'', VFloat64 0),
                       (''x->color:blue'', VFloat64 0), (''bias->color:blue'', VFloat64 0)]\<rparr>,
       NewCategoricalModel\<lparr>Categories := Some [(''color'', [(''red'', 0), (''blue'', 0)])]\<rparr>)
   \<and> lookup (Categories (NewCategoricalModel\<lparr>Categories := Some [(''color'', [(''red'', 0)])]\<rparr>)) ''color''
       = Some [(''red'', 0)]
   \<and> map_of [(''red'', 0 :: int)] ''red'' = Some 0
   \<and> (\<exists>cs'. lookup (Categories (NewCategoricalModel\<lparr>Categories := Some [(''color'', [(''red'', 0), (''blue'', 0)])]\<rparr>)) ''color'' = Some cs'
         \<and> map_of cs' ''red'' = Some 0)"
proof -
  have h2: "lookup (Categories (NewCategoricalModel\<lparr>Categories := Some [(''color'', [(''red'', 0)])]\<rparr>)) ''color''
       = Some [(''red'', 0)]" by (simp add: lookup_def entries_def)
  have h3: "map_of [(''red'', 0 :: int)] ''red'' = Some 0" by simp
  from categories_only_grow[OF disjI1[OF train_blue_after_red] h2 h3] train_blue_after_red h2 h3
  show ?thesis by blast
qed

section \<open>A target with a single label\<close>


lemma assign_single:
  assumes "cc = [] \<or> (\<exists>k. cc = [(label, k)])" and "existing = [(label, 0)]"
  shows "fst (fold (\<lambda>(category, n) (cs, idx).
                      if map_of cs category = None then (AList.update category idx cs, idx + 1)
                      else (cs, idx)) cc (existing, 0::int)) = [(label, 0)]"
  using assms by auto

lemma assign_fresh:
  assumes "cc = [] \<or> (\<exists>k. cc = [(label, k)])"
  shows "fst (fold (\<lambda>(category, n) (cs, idx).
                      if map_of cs category = None then (AList.update category idx cs, idx + 1)
                      else (cs, idx)) cc ([], 0::int)) \<in> {[], [(label, 0)]}"
  using assms by auto



















end
